theory Spec2Isabelle
  imports Complex_Main "HOL-Library.Multiset" "HOL-Library.AList"
begin

section \<open>Result records (core/result.py)\<close>

text \<open>
  Python values are modelled as follows. Unbounded integers are \<open>int\<close>; floats are
  idealised as \<open>real\<close>; a \<open>Path\<close> is the list of its components; a raise is a value
  of \<open>py_error\<close> on the left of a sum. The three container fields of a
  \<open>CleaningResult\<close> hold references into a store of mutable objects (section
  \<open>Object store\<close>), because Python passes lists and dicts by reference.
\<close>

datatype py_error =
    ZeroDivisionError
  | ValueError string
  | BadZipFile string
  | OSError string

type_synonym path = "string list"
type_synonym ref = nat

record datetime =
  year :: nat
  month :: nat
  day :: nat
  hour :: nat
  minute :: nat
  second :: nat
  microsecond :: nat

record CleaningResult =
  file_path :: path
  success :: bool
  original_size :: int
  cleaned_size :: int
  metadata_removed :: ref
  errors :: ref
  warnings :: ref
  processing_time :: real
  backup_path :: "path option"
  content_hash_before :: "string option"
  content_hash_after :: "string option"
  timestamp :: datetime

text \<open>\<open>a / b\<close> on Python ints: true division, raising on a zero divisor.\<close>

definition truediv :: "int \<Rightarrow> int \<Rightarrow> py_error + real" where
  "truediv a b = (if b = 0 then Inl ZeroDivisionError else Inr (real_of_int a / real_of_int b))"

definition size_reduction :: "CleaningResult \<Rightarrow> int" where
  "size_reduction r = original_size r - cleaned_size r"

definition size_reduction_percent :: "CleaningResult \<Rightarrow> py_error + real" where
  "size_reduction_percent r =
     (if original_size r = 0 then Inr 0
      else (case truediv (size_reduction r) (original_size r) of
              Inl e \<Rightarrow> Inl e
            | Inr q \<Rightarrow> Inr (q * 100)))"

record BatchCleaningResult =
  total_files :: int
  successful :: int
  failed :: int
  skipped :: int
  results :: "CleaningResult list"
  total_time :: real
  total_size_reduction :: int

definition BatchCleaningResult_init :: BatchCleaningResult where
  "BatchCleaningResult_init =
     \<lparr>total_files = 0, successful = 0, failed = 0, skipped = 0, results = [],
      total_time = 0, total_size_reduction = 0\<rparr>"

definition add_result :: "BatchCleaningResult \<Rightarrow> CleaningResult \<Rightarrow> BatchCleaningResult" where
  "add_result b r =
     (let b1 = b\<lparr>results := results b @ [r]\<rparr>;
          b2 = b1\<lparr>total_files := total_files b1 + 1\<rparr>
      in if success r
         then (let b3 = b2\<lparr>successful := successful b2 + 1\<rparr>
               in b3\<lparr>total_size_reduction := total_size_reduction b3 + size_reduction r\<rparr>)
         else b2\<lparr>failed := failed b2 + 1\<rparr>)"

definition success_rate :: "BatchCleaningResult \<Rightarrow> py_error + real" where
  "success_rate b =
     (if total_files b = 0 then Inr 0
      else (case truediv (successful b) (total_files b) of
              Inl e \<Rightarrow> Inl e
            | Inr q \<Rightarrow> Inr (q * 100)))"

text \<open>A sequence of \<open>add_result\<close> calls, in the order the results arrive.\<close>

definition add_results :: "BatchCleaningResult \<Rightarrow> CleaningResult list \<Rightarrow> BatchCleaningResult" where
  "add_results b rs = foldl add_result b rs"


subsection \<open>Object store\<close>

text \<open>
  Lists and dicts are objects in a store, addressed by their index; a dict is an
  association list in insertion order. References handed out by the model always point
  at an object of the right kind, as they do in Python; the readers below return the
  empty container on any other reference.
\<close>

datatype obj = DictObj "(string \<times> string) list" | ListObj "string list"

type_synonym store = "obj list"

definition alloc :: "store \<Rightarrow> obj \<Rightarrow> ref \<times> store" where
  "alloc h v = (length h, h @ [v])"

definition the_dict :: "store \<Rightarrow> ref \<Rightarrow> (string \<times> string) list" where
  "the_dict h a =
     (if a < length h then (case h ! a of DictObj d \<Rightarrow> d | ListObj _ \<Rightarrow> []) else [])"

definition the_list :: "store \<Rightarrow> ref \<Rightarrow> string list" where
  "the_list h a =
     (if a < length h then (case h ! a of ListObj l \<Rightarrow> l | DictObj _ \<Rightarrow> []) else [])"

definition metadata_count :: "store \<Rightarrow> CleaningResult \<Rightarrow> int" where
  "metadata_count h r = int (length (the_dict h (metadata_removed r)))"

subsection \<open>Serialisation (\<open>to_dict\<close>)\<close>

text \<open>\<open>round(x, n)\<close> on an idealised float: to the nearest multiple of \<open>10^-n\<close>, ties to even.\<close>

definition py_round :: "real \<Rightarrow> nat \<Rightarrow> real" where
  "py_round x n =
     (let y = x * 10 ^ n; f = \<lfloor>y\<rfloor>; d = y - of_int f
      in of_int (if d < 1 / 2 then f else if 1 / 2 < d then f + 1
                 else if even f then f else f + 1) / 10 ^ n)"

function dec :: "nat \<Rightarrow> string" where
  "dec n = (if n < 10 then [''0123456789'' ! n] else dec (n div 10) @ [''0123456789'' ! (n mod 10)])"
  by pat_completeness auto
termination
  by (relation "measure id") auto

declare dec.simps [simp del]

definition zfill :: "nat \<Rightarrow> string \<Rightarrow> string" where
  "zfill w s = replicate (w - length s) CHR ''0'' @ s"

text \<open>\<open>str(path)\<close>: the components joined by \<open>/\<close>; the empty path prints as a dot.\<close>

fun join :: "string \<Rightarrow> string list \<Rightarrow> string" where
  "join sep [] = []"
| "join sep [x] = x"
| "join sep (x # y # ys) = x @ sep @ join sep (y # ys)"

definition path_str :: "path \<Rightarrow> string" where
  "path_str p = (if p = [] then ''.'' else join ''/'' p)"

definition isoformat :: "datetime \<Rightarrow> string" where
  "isoformat t =
     zfill 4 (dec (year t)) @ ''-'' @ zfill 2 (dec (month t)) @ ''-'' @ zfill 2 (dec (day t))
     @ ''T'' @ zfill 2 (dec (hour t)) @ '':'' @ zfill 2 (dec (minute t)) @ '':''
     @ zfill 2 (dec (second t))
     @ (if microsecond t = 0 then [] else ''.'' @ zfill 6 (dec (microsecond t)))"

record CleaningResult_dict =
  d_file_path :: string
  d_success :: bool
  d_original_size :: int
  d_cleaned_size :: int
  d_size_reduction :: int
  d_size_reduction_percent :: real
  d_metadata_removed :: ref
  d_metadata_count :: int
  d_errors :: ref
  d_warnings :: ref
  d_processing_time :: real
  d_backup_path :: "string option"
  d_content_hash_before :: "string option"
  d_content_hash_after :: "string option"
  d_timestamp :: string

definition to_dict :: "store \<Rightarrow> CleaningResult \<Rightarrow> py_error + CleaningResult_dict" where
  "to_dict h r =
     (case size_reduction_percent r of
        Inl e \<Rightarrow> Inl e
      | Inr pct \<Rightarrow>
          Inr \<lparr>d_file_path = path_str (file_path r),
               d_success = success r,
               d_original_size = original_size r,
               d_cleaned_size = cleaned_size r,
               d_size_reduction = size_reduction r,
               d_size_reduction_percent = py_round pct 2,
               d_metadata_removed = metadata_removed r,
               d_metadata_count = metadata_count h r,
               d_errors = errors r,
               d_warnings = warnings r,
               d_processing_time = py_round (processing_time r) 3,
               d_backup_path = map_option path_str (backup_path r),
               d_content_hash_before = content_hash_before r,
               d_content_hash_after = content_hash_after r,
               d_timestamp = isoformat (timestamp r)\<rparr>)"

text \<open>The list comprehension of the batch report: the first raise aborts it.\<close>

fun to_dict_all :: "store \<Rightarrow> CleaningResult list \<Rightarrow> py_error + CleaningResult_dict list" where
  "to_dict_all h [] = Inr []"
| "to_dict_all h (r # rs) =
     (case to_dict h r of
        Inl e \<Rightarrow> Inl e
      | Inr d \<Rightarrow> (case to_dict_all h rs of Inl e \<Rightarrow> Inl e | Inr ds \<Rightarrow> Inr (d # ds)))"

record BatchCleaningResult_dict =
  d_total_files :: int
  d_successful :: int
  d_failed :: int
  d_skipped :: int
  d_success_rate :: real
  d_total_time :: real
  d_total_size_reduction :: int
  d_results :: "CleaningResult_dict list"

definition batch_to_dict :: "store \<Rightarrow> BatchCleaningResult \<Rightarrow> py_error + BatchCleaningResult_dict" where
  "batch_to_dict h b =
     (case success_rate b of
        Inl e \<Rightarrow> Inl e
      | Inr rate \<Rightarrow>
          (case to_dict_all h (results b) of
             Inl e \<Rightarrow> Inl e
           | Inr ds \<Rightarrow>
               Inr \<lparr>d_total_files = total_files b,
                    d_successful = successful b,
                    d_failed = failed b,
                    d_skipped = skipped b,
                    d_success_rate = py_round rate 2,
                    d_total_time = py_round (total_time b) 3,
                    d_total_size_reduction = total_size_reduction b,
                    d_results = ds\<rparr>))"

section \<open>Enumerations and paths (core/enums.py, pathlib)\<close>

datatype CleaningLevel = BASIC | DEEP | PARANOID

datatype FileType =
    PDF | DOCX | XLSX | PPTX | ODT | ODS | ODP | RTF | TXT
  | JPEG | JPG | PNG | TIFF | TIF | GIF | BMP | WEBP
  | MP3 | FLAC | WAV | M4A | OGG
  | MP4 | AVI | MKV | MOV | WMV
  | UNKNOWN

text \<open>\<open>str.lower\<close> and \<open>str.lstrip('.')\<close>, on ASCII text.\<close>

definition lower_char :: "char \<Rightarrow> char" where
  "lower_char c =
     (case map_of (zip ''ABCDEFGHIJKLMNOPQRSTUVWXYZ'' ''abcdefghijklmnopqrstuvwxyz'') c of
        Some d \<Rightarrow> d
      | None \<Rightarrow> c)"

definition lower :: "string \<Rightarrow> string" where
  "lower s = map lower_char s"

definition lstrip_dot :: "string \<Rightarrow> string" where
  "lstrip_dot s = dropWhile (\<lambda>c. c = CHR ''.'') s"

definition FileType_values :: "(string \<times> FileType) list" where
  "FileType_values =
     [(''pdf'', PDF), (''docx'', DOCX), (''xlsx'', XLSX), (''pptx'', PPTX), (''odt'', ODT),
      (''ods'', ODS), (''odp'', ODP), (''rtf'', RTF), (''txt'', TXT),
      (''jpeg'', JPEG), (''jpg'', JPG), (''png'', PNG), (''tiff'', TIFF), (''tif'', TIF),
      (''gif'', GIF), (''bmp'', BMP), (''webp'', WEBP),
      (''mp3'', MP3), (''flac'', FLAC), (''wav'', WAV), (''m4a'', M4A), (''ogg'', OGG),
      (''mp4'', MP4), (''avi'', AVI), (''mkv'', MKV), (''mov'', MOV), (''wmv'', WMV),
      (''unknown'', UNKNOWN)]"

definition from_extension :: "string \<Rightarrow> FileType" where
  "from_extension ext =
     (case map_of FileType_values (lstrip_dot (lower ext)) of
        Some t \<Rightarrow> t
      | None \<Rightarrow> UNKNOWN)"

definition is_image :: "FileType \<Rightarrow> bool" where
  "is_image t = (t \<in> set [JPEG, JPG, PNG, TIFF, TIF, GIF, BMP, WEBP])"

definition is_audio :: "FileType \<Rightarrow> bool" where
  "is_audio t = (t \<in> set [MP3, FLAC, WAV, M4A, OGG])"

definition is_video :: "FileType \<Rightarrow> bool" where
  "is_video t = (t \<in> set [MP4, AVI, MKV, MOV, WMV])"

text \<open>
  \<open>Path.name\<close>, \<open>Path.suffix\<close>, \<open>Path.stem\<close> and \<open>Path.parent\<close>. With \<open>i\<close> the index
  of the last dot of the name, the suffix is \<open>name[i:]\<close> when \<open>0 < i < len(name) - 1\<close>
  and empty otherwise.
\<close>

definition path_name :: "path \<Rightarrow> string" where
  "path_name p = (if p = [] then [] else last p)"

definition rfind_dot :: "string \<Rightarrow> nat option" where
  "rfind_dot s =
     (if CHR ''.'' \<in> set s
      then Some (length s - 1 - length (takeWhile (\<lambda>c. c \<noteq> CHR ''.'') (rev s)))
      else None)"

definition path_suffix :: "path \<Rightarrow> string" where
  "path_suffix p =
     (case rfind_dot (path_name p) of
        None \<Rightarrow> []
      | Some i \<Rightarrow> if 0 < i \<and> i < length (path_name p) - 1 then drop i (path_name p) else [])"

definition path_stem :: "path \<Rightarrow> string" where
  "path_stem p =
     (case rfind_dot (path_name p) of
        None \<Rightarrow> path_name p
      | Some i \<Rightarrow> if 0 < i \<and> i < length (path_name p) - 1 then take i (path_name p) else path_name p)"

definition path_parent :: "path \<Rightarrow> path" where
  "path_parent p = butlast p"

definition is_supported_file :: "path \<Rightarrow> bool" where
  "is_supported_file p = (from_extension (lstrip_dot (lower (path_suffix p))) \<noteq> UNKNOWN)"

section \<open>Documents as archives of parts (zipfile, ElementTree)\<close>

text \<open>
  An element of an \<open>ElementTree\<close>: tag (\<open>{namespace}local\<close>), attributes, text,
  children, tail.
\<close>

datatype xml =
  Element (tag: string) (attrib: "(string \<times> string) list") (elem_text: "string option")
          (children: "xml list") (elem_tail: "string option")

text \<open>
  A part of an archive is known either by the tree \<open>ElementTree\<close> parses from it, or,
  when it is not well-formed XML, by its raw content. An archive is the list of its
  members, name and part, in the order of the central directory.
\<close>

datatype part = XmlPart xml | RawPart string

type_synonym archive = "(string \<times> part) list"

text \<open>\<open>elem.tag.split('}')[-1]\<close>: what follows the last closing brace.\<close>

definition local_name :: "string \<Rightarrow> string" where
  "local_name t = rev (takeWhile (\<lambda>c. c \<noteq> CHR ''}'') (rev t))"

text \<open>\<open>root.iter()\<close>: the element and all its descendants, in document order.\<close>

fun iter :: "xml \<Rightarrow> xml list" where
  "iter (Element t a x cs y) = Element t a x cs y # concat (map iter cs)"

text \<open>\<open>str.strip()\<close> leaves nothing: every character is ASCII white space.\<close>

definition is_space :: "char \<Rightarrow> bool" where
  "is_space c = (c \<in> set [CHR '' '', CHR 0x09, CHR 0x0A, CHR 0x0B, CHR 0x0C, CHR 0x0D,
                           CHR 0x1C, CHR 0x1D, CHR 0x1E, CHR 0x1F])"

definition truthy_text :: "string option \<Rightarrow> bool" where
  "truthy_text x = (case x of None \<Rightarrow> False | Some s \<Rightarrow> s \<noteq> [] \<and> \<not> list_all is_space s)"

text \<open>
  Writing a tree and parsing it again: an element whose text (or tail) is the empty
  string comes back with none.
\<close>

fun et_write :: "xml \<Rightarrow> xml" where
  "et_write (Element t a x cs y) =
     Element t a (if x = Some [] then None else x) (map et_write cs)
       (if y = Some [] then None else y)"

subsection \<open>Extracting an archive (\<open>ZipFile.extractall\<close>)\<close>

text \<open>
  The extracted tree: its regular files with their content, and its directories. A
  member name is split at \<open>/\<close> and its empty, \<open>.\<close> and \<open>..\<close> components are dropped;
  a name that ends in \<open>/\<close> is a directory. A later member overwrites an earlier one
  of the same path. Extraction raises when a name has no component left, when a
  directory is needed where a file is, or a file where a directory is.
\<close>

record exdir =
  xfiles :: "(path \<times> part) list"
  xdirs :: "path list"

fun split_on :: "char \<Rightarrow> string \<Rightarrow> string list" where
  "split_on c [] = [[]]"
| "split_on c (x # xs) =
     (if x = c then [] # split_on c xs
      else (case split_on c xs of [] \<Rightarrow> [[x]] | w # ws \<Rightarrow> (x # w) # ws))"

definition arcname :: "string \<Rightarrow> path" where
  "arcname n = filter (\<lambda>x. x \<notin> set [[], ''.'', ''..'']) (split_on CHR ''/'' n)"

definition is_dir_member :: "string \<Rightarrow> bool" where
  "is_dir_member n = (n \<noteq> [] \<and> last n = CHR ''/'')"

definition ancestors :: "path \<Rightarrow> path list" where
  "ancestors p = map (\<lambda>k. take k p) [1..<length p]"

definition x_is_file :: "exdir \<Rightarrow> path \<Rightarrow> bool" where
  "x_is_file d p = (p \<in> set (map fst (xfiles d)))"

definition x_is_dir :: "exdir \<Rightarrow> path \<Rightarrow> bool" where
  "x_is_dir d p = (p = [] \<or> p \<in> set (xdirs d))"

definition x_exists :: "exdir \<Rightarrow> path \<Rightarrow> bool" where
  "x_exists d p = (x_is_file d p \<or> x_is_dir d p)"

definition makedirs :: "exdir \<Rightarrow> path list \<Rightarrow> exdir" where
  "makedirs d ps = d\<lparr>xdirs := xdirs d @ filter (\<lambda>a. \<not> x_is_dir d a) (remdups ps)\<rparr>"

definition extract_member :: "exdir \<Rightarrow> string \<times> part \<Rightarrow> py_error + exdir" where
  "extract_member d m =
     (let n = fst m; cs = arcname n
      in if cs = [] \<and> \<not> is_dir_member n then Inl (ValueError ''Empty filename.'')
         else if list_ex (x_is_file d) (ancestors cs) then Inl (OSError ''Not a directory'')
         else (let d1 = makedirs d (ancestors cs)
               in if is_dir_member n
                  then (if x_is_file d1 cs then Inl (OSError ''File exists'')
                        else Inr (makedirs d1 [cs]))
                  else if x_is_dir d1 cs then Inl (OSError ''Is a directory'')
                  else Inr (d1\<lparr>xfiles := AList.update cs (snd m) (xfiles d1)\<rparr>)))"

fun extract_members :: "exdir \<Rightarrow> archive \<Rightarrow> py_error + exdir" where
  "extract_members d [] = Inr d"
| "extract_members d (m # ms) =
     (case extract_member d m of Inl e \<Rightarrow> Inl e | Inr d' \<Rightarrow> extract_members d' ms)"

definition extractall :: "archive \<Rightarrow> py_error + exdir" where
  "extractall a = extract_members \<lparr>xfiles = [], xdirs = []\<rparr> a"

text \<open>\<open>zf.namelist()\<close> and \<open>zf.read(name)\<close>; of two members with one name the later is read.\<close>

definition namelist :: "archive \<Rightarrow> string list" where
  "namelist a = map fst a"

definition zf_read :: "archive \<Rightarrow> string \<Rightarrow> part option" where
  "zf_read a n = map_of (rev a) n"

section \<open>The office cleaner on the extracted tree (cleaners/office_cleaner.py)\<close>

definition metadata_files :: "path list" where
  "metadata_files =
     [[''docProps'', ''core.xml''], [''docProps'', ''app.xml''], [''docProps'', ''custom.xml'']]"

definition sensitive_tags :: "string list" where
  "sensitive_tags =
     [''creator'', ''lastModifiedBy'', ''created'', ''modified'',
      ''company'', ''manager'', ''lastPrinted'', ''revision'']"

text \<open>
  \<open>_clean_xml_metadata\<close>: every element whose lower-cased local name is in
  \<open>sensitive_tags\<close> gets the empty text; the tree is written back. A part that does not
  parse, or a directory in its place, is left as it is (the exception is logged).
\<close>

fun clean_xml_tree :: "xml \<Rightarrow> xml" where
  "clean_xml_tree (Element t a x cs y) =
     Element t a (if lower (local_name t) \<in> set sensitive_tags then Some [] else x)
       (map clean_xml_tree cs) y"

definition clean_xml_metadata :: "exdir \<Rightarrow> path \<Rightarrow> exdir" where
  "clean_xml_metadata d p =
     (case map_of (xfiles d) p of
        Some (XmlPart rt) \<Rightarrow>
          d\<lparr>xfiles := AList.update p (XmlPart (et_write (clean_xml_tree rt))) (xfiles d)\<rparr>
      | Some (RawPart _) \<Rightarrow> d
      | None \<Rightarrow> d)"

text \<open>
  The loop over the metadata files in \<open>clean\<close>: at \<open>BASIC\<close> the fields are cleared, at
  the other levels the file is unlinked, which raises on a directory.
\<close>

definition clean_metadata_file :: "CleaningLevel \<Rightarrow> exdir \<Rightarrow> path \<Rightarrow> py_error + exdir" where
  "clean_metadata_file lvl d p =
     (if x_exists d p
      then (if lvl = BASIC then Inr (clean_xml_metadata d p)
            else if x_is_file d p then Inr (d\<lparr>xfiles := AList.delete p (xfiles d)\<rparr>)
            else Inl (OSError ''Is a directory''))
      else Inr d)"

fun clean_metadata_files :: "CleaningLevel \<Rightarrow> exdir \<Rightarrow> path list \<Rightarrow> py_error + exdir" where
  "clean_metadata_files lvl d [] = Inr d"
| "clean_metadata_files lvl d (p # ps) =
     (case clean_metadata_file lvl d p of
        Inl e \<Rightarrow> Inl e
      | Inr d' \<Rightarrow> clean_metadata_files lvl d' ps)"

text \<open>
  \<open>_remove_rsid_attributes\<close> rewrites the text of a content file with two regular
  expression substitutions. The substitution on a part is a parameter \<open>rs\<close> of the
  model; a directory in place of the file raises inside the function and is logged.
\<close>

definition remove_rsid_attributes :: "(part \<Rightarrow> part) \<Rightarrow> exdir \<Rightarrow> path \<Rightarrow> exdir" where
  "remove_rsid_attributes rs d p =
     (case map_of (xfiles d) p of
        Some c \<Rightarrow> d\<lparr>xfiles := AList.update p (rs c) (xfiles d)\<rparr>
      | None \<Rightarrow> d)"

definition content_files :: "string \<Rightarrow> path list" where
  "content_files file_ext =
     (if file_ext \<in> set [''.docx'', ''.odt''] then [[''word'', ''document.xml''], [''content.xml'']]
      else if file_ext \<in> set [''.xlsx'', ''.ods''] then [[''xl'', ''workbook.xml''], [''content.xml'']]
      else if file_ext \<in> set [''.pptx'', ''.odp''] then [[''ppt'', ''presentation.xml''], [''content.xml'']]
      else [])"

definition clean_content_files :: "(part \<Rightarrow> part) \<Rightarrow> exdir \<Rightarrow> string \<Rightarrow> exdir" where
  "clean_content_files rs d file_ext =
     foldl (remove_rsid_attributes rs) d (filter (x_exists d) (content_files file_ext))"

text \<open>
  \<open>_update_content_types\<close>. \<open>root.findall('.//{*}Override')\<close> lists every proper
  descendant of the root whose tag is \<open>Override\<close> in any or no namespace. Of these,
  the ones whose \<open>PartName\<close> is a metadata part are passed to \<open>root.remove\<close>, which
  removes a child of the root and raises \<open>ValueError\<close> on any deeper element. The tree
  is written only when no call raised, so a raise leaves the manifest as it was.
\<close>

definition metadata_parts :: "string list" where
  "metadata_parts = [''/docProps/core.xml'', ''/docProps/app.xml'', ''/docProps/custom.xml'']"

definition is_override :: "xml \<Rightarrow> bool" where
  "is_override e = (tag e = ''Override'' \<or> drop (length (tag e) - 9) (tag e) = ''}Override'')"

definition part_name :: "xml \<Rightarrow> string" where
  "part_name e = (case map_of (attrib e) ''PartName'' of Some v \<Rightarrow> v | None \<Rightarrow> [])"

definition targeted :: "xml \<Rightarrow> bool" where
  "targeted e = (is_override e \<and> part_name e \<in> set metadata_parts)"

definition remove_overrides :: "xml \<Rightarrow> py_error + xml" where
  "remove_overrides rt =
     (if list_ex targeted (concat (map (\<lambda>c. tl (iter c)) (children rt)))
      then Inl (ValueError ''list.remove(x): x not in list'')
      else Inr (Element (tag rt) (attrib rt) (elem_text rt)
                  (filter (\<lambda>c. \<not> targeted c) (children rt)) (elem_tail rt)))"

definition content_types_path :: path where
  "content_types_path = [''[Content_Types].xml'']"

definition update_content_types :: "exdir \<Rightarrow> exdir" where
  "update_content_types d =
     (if \<not> x_exists d content_types_path then d
      else (case map_of (xfiles d) content_types_path of
              Some (XmlPart rt) \<Rightarrow>
                (case remove_overrides rt of
                   Inl e \<Rightarrow> d
                 | Inr rt' \<Rightarrow>
                     d\<lparr>xfiles := AList.update content_types_path (XmlPart (et_write rt'))
                                    (xfiles d)\<rparr>)
            | Some (RawPart _) \<Rightarrow> d
            | None \<Rightarrow> d))"

text \<open>Steps of \<open>clean\<close> between extraction and repackaging.\<close>

definition rewrite_tree :: "(part \<Rightarrow> part) \<Rightarrow> CleaningLevel \<Rightarrow> string \<Rightarrow> exdir \<Rightarrow> py_error + exdir" where
  "rewrite_tree rs lvl file_ext d =
     (case clean_metadata_files lvl d metadata_files of
        Inl e \<Rightarrow> Inl e
      | Inr d1 \<Rightarrow>
          Inr (update_content_types
                 (if lvl \<in> set [DEEP, PARANOID] then clean_content_files rs d1 file_ext else d1)))"

text \<open>
  \<open>_create_office_file\<close> lists the regular files of the tree (\<open>rglob\<close>, then
  \<open>is_file\<close>) and writes each under its path relative to the tree.
\<close>

definition packed :: "exdir \<Rightarrow> archive" where
  "packed d = map (\<lambda>(p, c). (join ''/'' p, c)) (xfiles d)"

text \<open>\<open>extract_metadata\<close>, on the archive read from the file.\<close>

definition collect :: "string \<Rightarrow> xml \<Rightarrow> (string \<times> string) list \<Rightarrow> (string \<times> string) list" where
  "collect prefix rt m =
     foldl (\<lambda>m e. case elem_text e of
                     None \<Rightarrow> m
                   | Some s \<Rightarrow> if truthy_text (Some s)
                              then AList.update (prefix @ local_name (tag e)) (take 100 s) m
                              else m)
           m (iter rt)"

definition extract_archive_metadata :: "archive \<Rightarrow> (string \<times> string) list" where
  "extract_archive_metadata a =
     (let m0 = [];
          core = (if ''docProps/core.xml'' \<in> set (namelist a)
                  then (case zf_read a ''docProps/core.xml'' of
                          Some (XmlPart rt) \<Rightarrow> Inr (collect ''Core.'' rt m0)
                        | _ \<Rightarrow> Inl m0)
                  else Inr m0)
      in case core of
           Inl m \<Rightarrow> m
         | Inr m1 \<Rightarrow>
             (let app = (if ''docProps/app.xml'' \<in> set (namelist a)
                         then (case zf_read a ''docProps/app.xml'' of
                                 Some (XmlPart rt) \<Rightarrow> Inr (collect ''App.'' rt m1)
                               | _ \<Rightarrow> Inl m1)
                         else Inr m1)
              in case app of
                   Inl m \<Rightarrow> m
                 | Inr m2 \<Rightarrow>
                     if ''docProps/custom.xml'' \<in> set (namelist a)
                     then AList.update ''Custom'' ''Present'' m2
                     else m2))"

section \<open>Files, cleaner objects and the environment\<close>

text \<open>
  A regular file is a zip archive or anything else. The state holds the regular files,
  the directories (the empty path is the working directory) and the object store.
  Paths handed to the cleaner name a regular file, a directory or nothing.
\<close>

datatype file_data = ZipFile archive | OtherFile string

record state =
  files :: "(path \<times> file_data) list"
  dirs :: "path list"
  heap :: store

definition is_file :: "state \<Rightarrow> path \<Rightarrow> bool" where
  "is_file st p = (p \<in> set (map fst (files st)))"

definition is_dir :: "state \<Rightarrow> path \<Rightarrow> bool" where
  "is_dir st p = (p = [] \<or> p \<in> set (dirs st))"

definition exists :: "state \<Rightarrow> path \<Rightarrow> bool" where
  "exists st p = (is_file st p \<or> is_dir st p)"

text \<open>
  What the model takes from outside the repository: file sizes and hashes, the
  regular-expression substitution on a content part, the cleaners built on external
  libraries, the clock, and a storage fault. \<open>write_fault = Some f\<close> says that the
  device fails while the output archive is being written, after the output file was
  opened, and leaves the content \<open>f\<close> there.
\<close>

datatype cleaner_kind = PdfCleaner | OfficeCleaner | ImageCleaner | AudioCleaner | VideoCleaner | TextCleaner

record external_outcome =
  ext_success :: bool
  ext_metadata :: "(string \<times> string) list option"
  ext_warnings :: "string list"
  ext_errors :: "string list"
  ext_files :: "(path \<times> file_data) list"

record env =
  file_size :: "file_data \<Rightarrow> int"
  dir_size :: int
  file_hash :: "file_data \<Rightarrow> string"
  rsid_sub :: "part \<Rightarrow> part"
  external_clean :: "cleaner_kind \<Rightarrow> CleaningLevel \<Rightarrow> (path \<times> file_data) list \<Rightarrow> path \<Rightarrow> path \<Rightarrow> external_outcome"
  write_fault :: "file_data option"
  backup_time :: datetime
  elapsed :: real
  created :: datetime

section \<open>Utilities (core/utils.py)\<close>

definition get_file_size :: "env \<Rightarrow> state \<Rightarrow> path \<Rightarrow> int" where
  "get_file_size ev st p =
     (case map_of (files st) p of Some f \<Rightarrow> file_size ev f | None \<Rightarrow> dir_size ev)"

definition calculate_file_hash :: "env \<Rightarrow> state \<Rightarrow> path \<Rightarrow> py_error + string" where
  "calculate_file_hash ev st p =
     (case map_of (files st) p of
        Some f \<Rightarrow> Inr (file_hash ev f)
      | None \<Rightarrow> Inl (OSError ''Is a directory''))"

definition verify_file_integrity :: "env \<Rightarrow> state \<Rightarrow> path \<Rightarrow> path \<Rightarrow> bool" where
  "verify_file_integrity ev st original_path cleaned_path =
     (if \<not> exists st cleaned_path then False
      else if get_file_size ev st cleaned_path = 0 then False
      else True)"

text \<open>\<open>strftime("%Y%m%d_%H%M%S")\<close>, for years of four digits.\<close>

definition strftime :: "datetime \<Rightarrow> string" where
  "strftime t =
     zfill 4 (dec (year t)) @ zfill 2 (dec (month t)) @ zfill 2 (dec (day t)) @ ''_''
     @ zfill 2 (dec (hour t)) @ zfill 2 (dec (minute t)) @ zfill 2 (dec (second t))"

text \<open>\<open>mkdir(parents=True, exist_ok=True)\<close>.\<close>

definition mkdir_parents :: "state \<Rightarrow> path \<Rightarrow> py_error + state" where
  "mkdir_parents st p =
     (if is_file st p then Inl (OSError ''File exists'')
      else if list_ex (is_file st) (ancestors p) then Inl (OSError ''Not a directory'')
      else Inr (st\<lparr>dirs := dirs st @ filter (\<lambda>a. \<not> is_dir st a) (ancestors p @ [p])\<rparr>))"

text \<open>
  \<open>create_backup\<close>, with the reading \<open>now\<close> of the clock. \<open>shutil.copy2\<close> raises when
  the source is not a regular file or is the destination, and copies into the
  destination when that is a directory.
\<close>

definition copy2 :: "state \<Rightarrow> path \<Rightarrow> path \<Rightarrow> py_error + state" where
  "copy2 st src dst =
     (case map_of (files st) src of
        None \<Rightarrow> Inl (OSError ''No such file or directory'')
      | Some f \<Rightarrow>
          (let target = (if is_dir st dst then dst @ [path_name src] else dst)
           in if target = src then Inl (OSError ''are the same file'')
              else if is_dir st target then Inl (OSError ''Is a directory'')
              else Inr (st\<lparr>files := AList.update target f (files st)\<rparr>)))"

definition backup_name :: "datetime \<Rightarrow> path \<Rightarrow> string" where
  "backup_name now fpath = path_stem fpath @ ''_'' @ strftime now @ path_suffix fpath"

definition create_backup :: "datetime \<Rightarrow> state \<Rightarrow> path \<Rightarrow> path option \<Rightarrow> py_error + (path \<times> state)" where
  "create_backup now st fpath bdir_opt =
     (let bdir = (case bdir_opt of
                    None \<Rightarrow> path_parent fpath @ [''metadata_cleaner_backups'']
                  | Some b \<Rightarrow> b)
      in case mkdir_parents st bdir of
           Inl e \<Rightarrow> Inl e
         | Inr st1 \<Rightarrow>
             (let bpath = bdir @ [backup_name now fpath]
              in case copy2 st1 fpath bpath of
                   Inl e \<Rightarrow> Inl e
                 | Inr st2 \<Rightarrow> Inr (bpath, st2)))"

section \<open>Cleaner objects (cleaners/base_cleaner.py)\<close>

record cleaner =
  c_level :: CleaningLevel
  c_metadata_removed :: ref
  c_warnings :: ref
  c_errors :: ref

definition new_cleaner :: "CleaningLevel \<Rightarrow> store \<Rightarrow> cleaner \<times> store" where
  "new_cleaner lvl h =
     (let (m, h1) = alloc h (DictObj []);
          (w, h2) = alloc h1 (ListObj []);
          (e, h3) = alloc h2 (ListObj [])
      in (\<lparr>c_level = lvl, c_metadata_removed = m, c_warnings = w, c_errors = e\<rparr>, h3))"

text \<open>\<open>.clear()\<close> and \<open>.append(message)\<close> act on the object, whoever else refers to it.\<close>

definition clear :: "store \<Rightarrow> ref \<Rightarrow> store" where
  "clear h a =
     (if a < length h
      then h[a := (case h ! a of DictObj _ \<Rightarrow> DictObj [] | ListObj _ \<Rightarrow> ListObj [])]
      else h)"

definition append :: "store \<Rightarrow> ref \<Rightarrow> string \<Rightarrow> store" where
  "append h a msg =
     (if a < length h
      then h[a := (case h ! a of DictObj d \<Rightarrow> DictObj d | ListObj l \<Rightarrow> ListObj (l @ [msg]))]
      else h)"

definition reset :: "cleaner \<Rightarrow> store \<Rightarrow> store" where
  "reset c h = clear (clear (clear h (c_metadata_removed c)) (c_warnings c)) (c_errors c)"

definition add_warning :: "cleaner \<Rightarrow> store \<Rightarrow> string \<Rightarrow> store" where
  "add_warning c h message = append h (c_warnings c) message"

definition add_error :: "cleaner \<Rightarrow> store \<Rightarrow> string \<Rightarrow> store" where
  "add_error c h message = append h (c_errors c) message"

definition error_str :: "py_error \<Rightarrow> string" where
  "error_str e =
     (case e of
        ZeroDivisionError \<Rightarrow> ''division by zero''
      | ValueError m \<Rightarrow> m
      | BadZipFile m \<Rightarrow> m
      | OSError m \<Rightarrow> m)"

section \<open>\<open>OfficeCleaner.clean\<close>\<close>

definition extract_metadata :: "state \<Rightarrow> path \<Rightarrow> (string \<times> string) list" where
  "extract_metadata st fpath =
     (case map_of (files st) fpath of
        Some (ZipFile a) \<Rightarrow> extract_archive_metadata a
      | Some (OtherFile _) \<Rightarrow> []
      | None \<Rightarrow> [])"

text \<open>
  \<open>zipfile.ZipFile(output_path, 'w')\<close> raises, without writing, on a directory and in a
  missing directory; once it is open the file holds what was written.
\<close>

definition create_office_file :: "env \<Rightarrow> state \<Rightarrow> exdir \<Rightarrow> path \<Rightarrow> py_error option \<times> state" where
  "create_office_file ev st d output_path =
     (if is_dir st output_path then (Some (OSError ''Is a directory''), st)
      else if \<not> is_dir st (path_parent output_path)
      then (Some (OSError ''No such file or directory''), st)
      else (case write_fault ev of
              Some f \<Rightarrow> (Some (OSError ''No space left on device''),
                         st\<lparr>files := AList.update output_path f (files st)\<rparr>)
            | None \<Rightarrow> (None, st\<lparr>files := AList.update output_path (ZipFile (packed d)) (files st)\<rparr>)))"

text \<open>The body of the \<open>try\<close> after the metadata was extracted: the exception, if any, and the state.\<close>

definition office_body :: "env \<Rightarrow> CleaningLevel \<Rightarrow> state \<Rightarrow> path \<Rightarrow> path \<Rightarrow> py_error option \<times> state" where
  "office_body ev lvl st input_path output_path =
     (case map_of (files st) input_path of
        None \<Rightarrow> (Some (OSError ''No such file or directory''), st)
      | Some (OtherFile _) \<Rightarrow> (Some (BadZipFile ''File is not a zip file''), st)
      | Some (ZipFile a) \<Rightarrow>
          (case extractall a of
             Inl e \<Rightarrow> (Some e, st)
           | Inr d \<Rightarrow>
               (case rewrite_tree (rsid_sub ev) lvl (path_suffix input_path) d of
                  Inl e \<Rightarrow> (Some e, st)
                | Inr d' \<Rightarrow> create_office_file ev st d' output_path)))"

definition office_clean :: "env \<Rightarrow> cleaner \<Rightarrow> state \<Rightarrow> path \<Rightarrow> path \<Rightarrow> bool \<times> cleaner \<times> state" where
  "office_clean ev c st input_path output_path =
     (let h1 = reset c (heap st);
          (m, h2) = alloc h1 (DictObj (extract_metadata st input_path));
          c1 = c\<lparr>c_metadata_removed := m\<rparr>;
          (exc, st1) = office_body ev (c_level c) (st\<lparr>heap := h2\<rparr>) input_path output_path
      in case exc of
           None \<Rightarrow> (True, c1, st1)
         | Some e \<Rightarrow>
             (False, c1,
              st1\<lparr>heap := add_error c1 (heap st1)
                              (''Failed to clean Office document: '' @ error_str e)\<rparr>))"

text \<open>
  The other cleaners follow the same protocol around calls into their libraries:
  \<open>reset\<close>, then possibly a fresh \<open>metadata_removed\<close>, warnings and errors appended, the
  files changed.
\<close>

definition external_cleaner_clean ::
  "env \<Rightarrow> cleaner_kind \<Rightarrow> cleaner \<Rightarrow> state \<Rightarrow> path \<Rightarrow> path \<Rightarrow> bool \<times> cleaner \<times> state" where
  "external_cleaner_clean ev k c st input_path output_path =
     (let h1 = reset c (heap st);
          out = external_clean ev k (c_level c) (files st) input_path output_path;
          (c1, h2) = (case ext_metadata out of
                        None \<Rightarrow> (c, h1)
                      | Some md \<Rightarrow> (let (m, h') = alloc h1 (DictObj md)
                                   in (c\<lparr>c_metadata_removed := m\<rparr>, h')));
          h3 = foldl (add_warning c1) h2 (ext_warnings out);
          h4 = foldl (add_error c1) h3 (ext_errors out)
      in (ext_success out, c1, st\<lparr>files := ext_files out, heap := h4\<rparr>))"

section \<open>The orchestrator (core/cleaner.py)\<close>

record MetadataCleaner =
  level :: CleaningLevel
  backup :: bool
  verify :: bool
  backup_dir :: "path option"
  cleaners :: "cleaner_kind \<Rightarrow> cleaner"

definition MetadataCleaner_init ::
  "CleaningLevel \<Rightarrow> bool \<Rightarrow> bool \<Rightarrow> path option \<Rightarrow> store \<Rightarrow> MetadataCleaner \<times> store" where
  "MetadataCleaner_init lvl bk vf bd h =
     (let (c1, h1) = new_cleaner lvl h;
          (c2, h2) = new_cleaner lvl h1;
          (c3, h3) = new_cleaner lvl h2;
          (c4, h4) = new_cleaner lvl h3;
          (c5, h5) = new_cleaner lvl h4;
          (c6, h6) = new_cleaner lvl h5
      in (\<lparr>level = lvl, backup = bk, verify = vf, backup_dir = bd,
           cleaners = (\<lambda>k. case k of
                             PdfCleaner \<Rightarrow> c1 | OfficeCleaner \<Rightarrow> c2 | ImageCleaner \<Rightarrow> c3
                           | AudioCleaner \<Rightarrow> c4 | VideoCleaner \<Rightarrow> c5 | TextCleaner \<Rightarrow> c6)\<rparr>,
          h6))"

definition get_cleaner :: "path \<Rightarrow> cleaner_kind option" where
  "get_cleaner fpath =
     (let file_type = from_extension (path_suffix fpath)
      in if file_type = PDF then Some PdfCleaner
         else if file_type \<in> set [DOCX, XLSX, PPTX, ODT, ODS, ODP] then Some OfficeCleaner
         else if is_image file_type then Some ImageCleaner
         else if is_audio file_type then Some AudioCleaner
         else if is_video file_type then Some VideoCleaner
         else if file_type \<in> set [TXT, RTF] then Some TextCleaner
         else None)"

text \<open>
  The early returns of \<open>clean_file\<close> build a result with a fresh \<open>errors\<close> list and
  the default, fresh, \<open>metadata_removed\<close> and \<open>warnings\<close>.
\<close>

definition failure_result ::
  "env \<Rightarrow> state \<Rightarrow> path \<Rightarrow> int \<Rightarrow> string \<Rightarrow> CleaningResult \<times> state" where
  "failure_result ev st fpath orig msg =
     (let (e, h1) = alloc (heap st) (ListObj [msg]);
          (m, h2) = alloc h1 (DictObj []);
          (w, h3) = alloc h2 (ListObj [])
      in (\<lparr>file_path = fpath, success = False, original_size = orig, cleaned_size = 0,
           metadata_removed = m, errors = e, warnings = w, processing_time = 0,
           backup_path = None, content_hash_before = None, content_hash_after = None,
           timestamp = created ev\<rparr>,
          st\<lparr>heap := h3\<rparr>))"

definition cleaner_clean ::
  "env \<Rightarrow> cleaner_kind \<Rightarrow> cleaner \<Rightarrow> state \<Rightarrow> path \<Rightarrow> path \<Rightarrow> bool \<times> cleaner \<times> state" where
  "cleaner_clean ev k c st input_path output_path =
     (if k = OfficeCleaner then office_clean ev c st input_path output_path
      else external_cleaner_clean ev k c st input_path output_path)"

text \<open>
  \<open>clean_file\<close> from the call of the cleaner on. The result refers to the containers
  of the cleaner; it does not copy them.
\<close>

definition clean_with ::
  "env \<Rightarrow> MetadataCleaner \<Rightarrow> state \<Rightarrow> path \<Rightarrow> path \<Rightarrow> int \<Rightarrow> string option \<Rightarrow> path option
     \<Rightarrow> cleaner_kind \<Rightarrow> (py_error + CleaningResult) \<times> MetadataCleaner \<times> state" where
  "clean_with ev mc st fpath output_path orig hash_before bpath k =
     (let (ok, c, st1) = cleaner_clean ev k (cleaners mc k) st fpath output_path;
          mc1 = mc\<lparr>cleaners := (cleaners mc)(k := c)\<rparr>;
          csize = (if exists st1 output_path then get_file_size ev st1 output_path else 0);
          hash_after = (if verify mc \<and> exists st1 output_path
                        then (case calculate_file_hash ev st1 output_path of
                                Inl e \<Rightarrow> Inl e
                              | Inr v \<Rightarrow> Inr (Some v))
                        else Inr None)
      in case hash_after of
           Inl e \<Rightarrow> (Inl e, mc1, st1)
         | Inr ha \<Rightarrow>
             (let st2 = (if verify mc \<and> ok \<and> \<not> verify_file_integrity ev st1 fpath output_path
                         then st1\<lparr>heap := add_warning c (heap st1)
                                             ''File integrity verification failed''\<rparr>
                         else st1)
              in (Inr \<lparr>file_path = fpath, success = ok, original_size = orig,
                       cleaned_size = csize, metadata_removed = c_metadata_removed c,
                       errors = c_errors c, warnings = c_warnings c,
                       processing_time = elapsed ev, backup_path = bpath,
                       content_hash_before = hash_before, content_hash_after = ha,
                       timestamp = created ev\<rparr>,
                  mc1, st2)))"

definition clean_file ::
  "env \<Rightarrow> MetadataCleaner \<Rightarrow> state \<Rightarrow> path \<Rightarrow> path option
     \<Rightarrow> (py_error + CleaningResult) \<times> MetadataCleaner \<times> state" where
  "clean_file ev mc st fpath output_opt =
     (let output_path = (case output_opt of None \<Rightarrow> fpath | Some p \<Rightarrow> p)
      in if \<not> exists st fpath
         then (let (r, st') = failure_result ev st fpath 0 (''File not found: '' @ path_str fpath)
               in (Inr r, mc, st'))
         else if \<not> is_supported_file fpath
         then (let (r, st') = failure_result ev st fpath (get_file_size ev st fpath)
                                (''Unsupported file type: '' @ path_suffix fpath)
               in (Inr r, mc, st'))
         else (let orig = get_file_size ev st fpath;
                   hash_before = (if verify mc
                                  then (case calculate_file_hash ev st fpath of
                                          Inl e \<Rightarrow> Inl e
                                        | Inr v \<Rightarrow> Inr (Some v))
                                  else Inr None)
               in case hash_before of
                    Inl e \<Rightarrow> (Inl e, mc, st)
                  | Inr hb \<Rightarrow>
                      (case (if backup mc
                             then (case create_backup (backup_time ev) st fpath (backup_dir mc) of
                                     Inl e \<Rightarrow> Inl e
                                   | Inr (bp, st') \<Rightarrow> Inr (Some bp, st'))
                             else Inr (None, st)) of
                         Inl e \<Rightarrow>
                           (let (r, st') = failure_result ev st fpath orig
                                             (''Failed to create backup: '' @ error_str e)
                            in (Inr r, mc, st'))
                       | Inr (bpath, st1) \<Rightarrow>
                           (case get_cleaner fpath of
                              None \<Rightarrow>
                                (let (r, st') = failure_result ev st1 fpath orig
                                                  (''No cleaner available for: '' @ path_suffix fpath)
                                 in (Inr r, mc, st'))
                            | Some k \<Rightarrow>
                                clean_with ev mc st1 fpath output_path orig hb bpath k))))"

subsection \<open>Batches\<close>

text \<open>
  The pool runs one \<open>clean_file\<close> per path; the model runs them one after the other,
  in the order in which they complete, task \<open>i\<close> in the environment \<open>task_env i\<close>.
  \<open>future.result()\<close> hands on a result or raises again what the task raised, which
  ends the batch.
\<close>

record batch_env =
  task_env :: "nat \<Rightarrow> env"
  batch_elapsed :: real

fun run_tasks ::
  "(nat \<Rightarrow> env) \<Rightarrow> nat \<Rightarrow> MetadataCleaner \<Rightarrow> state \<Rightarrow> path list
     \<Rightarrow> (py_error + CleaningResult) list \<times> MetadataCleaner \<times> state" where
  "run_tasks tev i mc st [] = ([], mc, st)"
| "run_tasks tev i mc st (p # ps) =
     (let (r, mc1, st1) = clean_file (tev i) mc st p None;
          (rs, mc2, st2) = run_tasks tev (Suc i) mc1 st1 ps
      in (r # rs, mc2, st2))"

fun collect_results ::
  "BatchCleaningResult \<Rightarrow> (py_error + CleaningResult) list \<Rightarrow> py_error + BatchCleaningResult" where
  "collect_results b [] = Inr b"
| "collect_results b (Inl e # rs) = Inl e"
| "collect_results b (Inr r # rs) = collect_results (add_result b r) rs"

definition run_pool ::
  "batch_env \<Rightarrow> MetadataCleaner \<Rightarrow> state \<Rightarrow> path list \<Rightarrow> int
     \<Rightarrow> (py_error + BatchCleaningResult) \<times> MetadataCleaner \<times> state" where
  "run_pool bev mc st paths max_workers =
     (if max_workers \<le> 0 then (Inl (ValueError ''max_workers must be greater than 0''), mc, st)
      else (let (rs, mc1, st1) = run_tasks (task_env bev) 0 mc st paths
            in (collect_results BatchCleaningResult_init rs, mc1, st1)))"

definition clean_files ::
  "batch_env \<Rightarrow> MetadataCleaner \<Rightarrow> state \<Rightarrow> path list \<Rightarrow> int
     \<Rightarrow> (py_error + BatchCleaningResult) \<times> MetadataCleaner \<times> state" where
  "clean_files bev mc st file_paths max_workers =
     (let (res, mc1, st1) = run_pool bev mc st file_paths max_workers
      in (case res of
            Inl e \<Rightarrow> Inl e
          | Inr b \<Rightarrow> Inr (b\<lparr>total_time := batch_elapsed bev\<rparr>),
          mc1, st1))"

text \<open>
  \<open>folder_path.glob(pattern)\<close> restricted to regular files: the files directly in the
  folder, or with \<open>recursive\<close> all files below it.
\<close>

definition glob_files :: "state \<Rightarrow> path \<Rightarrow> bool \<Rightarrow> path list" where
  "glob_files st folder recursive =
     filter (\<lambda>p. if recursive then length folder < length p \<and> take (length folder) p = folder
                  else p \<noteq> [] \<and> butlast p = folder)
            (remdups (map fst (files st)))"

definition clean_folder ::
  "batch_env \<Rightarrow> MetadataCleaner \<Rightarrow> state \<Rightarrow> path \<Rightarrow> bool \<Rightarrow> int
     \<Rightarrow> (py_error + BatchCleaningResult) \<times> MetadataCleaner \<times> state" where
  "clean_folder bev mc st folder_path recursive max_workers =
     (if \<not> exists st folder_path \<or> \<not> is_dir st folder_path
      then (Inr BatchCleaningResult_init, mc, st)
      else (let all_files = glob_files st folder_path recursive;
                supported_files = filter is_supported_file all_files;
                (res, mc1, st1) = run_pool bev mc st supported_files max_workers
            in (case res of
                  Inl e \<Rightarrow> Inl e
                | Inr b \<Rightarrow>
                    Inr (b\<lparr>total_time := batch_elapsed bev,
                           skipped := int (length all_files) - int (length supported_files)\<rparr>),
                mc1, st1)))"

subsection \<open>Example results\<close>

definition epoch :: datetime where
  "epoch = \<lparr>year = 2024, month = 1, day = 1, hour = 12, minute = 0, second = 0, microsecond = 0\<rparr>"

definition example_result :: "string \<Rightarrow> bool \<Rightarrow> int \<Rightarrow> int \<Rightarrow> CleaningResult" where
  "example_result name ok orig cleaned =
     \<lparr>file_path = [name], success = ok, original_size = orig, cleaned_size = cleaned,
      metadata_removed = 0, errors = 1, warnings = 2, processing_time = 0,
      backup_path = None, content_hash_before = None, content_hash_after = None,
      timestamp = epoch\<rparr>"

subsection \<open>Example documents\<close>

definition core_xml :: xml where
  "core_xml =
     Element ''{http://schemas.openxmlformats.org/package/2006/metadata/core-properties}coreProperties'' [] None
       [Element ''{http://purl.org/dc/elements/1.1/}creator'' [] (Some ''Alice'') [] None,
        Element ''{http://purl.org/dc/elements/1.1/}title'' [] (Some ''Report'') [] None,
        Element ''{http://schemas.openxmlformats.org/package/2006/metadata/core-properties}revision'' []
          (Some ''3'') [] None]
       None"

definition content_types_xml :: xml where
  "content_types_xml =
     Element ''{http://schemas.openxmlformats.org/package/2006/content-types}Types'' [] None
       [Element ''{http://schemas.openxmlformats.org/package/2006/content-types}Default''
          [(''Extension'', ''xml''), (''ContentType'', ''application/xml'')] None [] None,
        Element ''{http://schemas.openxmlformats.org/package/2006/content-types}Override''
          [(''PartName'', ''/word/document.xml''), (''ContentType'', ''application/xml'')] None [] None,
        Element ''{http://schemas.openxmlformats.org/package/2006/content-types}Override''
          [(''PartName'', ''/docProps/core.xml''),
           (''ContentType'', ''application/vnd.openxmlformats-package.core-properties+xml'')]
          None [] None]
       None"

definition document_xml :: xml where
  "document_xml =
     Element ''{http://schemas.openxmlformats.org/wordprocessingml/2006/main}document'' [] None
       [Element ''{http://schemas.openxmlformats.org/wordprocessingml/2006/main}body'' []
          (Some ''Hello'') [] None]
       None"

definition example_docx :: archive where
  "example_docx =
     [(''[Content_Types].xml'', XmlPart content_types_xml),
      (''word/document.xml'', XmlPart document_xml),
      (''docProps/core.xml'', XmlPart core_xml)]"

text \<open>
  An environment without faults, for a document whose content carries no revision
  markers; no external cleaner is called in the examples.
\<close>

definition example_env :: env where
  "example_env =
     \<lparr>file_size = (\<lambda>f. case f of ZipFile a \<Rightarrow> 100 * int (length a) | OtherFile s \<Rightarrow> int (length s)),
      dir_size = 4096,
      file_hash = (\<lambda>f. ''00''),
      rsid_sub = (\<lambda>c. c),
      external_clean = (\<lambda>k lvl fs i out.
         \<lparr>ext_success = True, ext_metadata = Some [], ext_warnings = [], ext_errors = [],
          ext_files = fs\<rparr>),
      write_fault = None,
      backup_time = epoch,
      elapsed = 0,
      created = epoch\<rparr>"

definition example_state :: state where
  "example_state =
     \<lparr>files = [([''a.docx''], ZipFile example_docx), ([''b.docx''], OtherFile ''not a zip'')],
      dirs = [], heap = []\<rparr>"

text \<open>The example document extracted, and its parts after cleaning.\<close>

definition example_tree :: exdir where
  "example_tree =
     \<lparr>xfiles = [([''[Content_Types].xml''], XmlPart content_types_xml),
                ([''word'', ''document.xml''], XmlPart document_xml),
                ([''docProps'', ''core.xml''], XmlPart core_xml)],
      xdirs = [[''word''], [''docProps'']]\<rparr>"

definition core_xml_cleared :: xml where
  "core_xml_cleared =
     Element ''{http://schemas.openxmlformats.org/package/2006/metadata/core-properties}coreProperties'' [] None
       [Element ''{http://purl.org/dc/elements/1.1/}creator'' [] None [] None,
        Element ''{http://purl.org/dc/elements/1.1/}title'' [] (Some ''Report'') [] None,
        Element ''{http://schemas.openxmlformats.org/package/2006/metadata/core-properties}revision'' []
          None [] None]
       None"

definition content_types_stripped :: xml where
  "content_types_stripped =
     Element ''{http://schemas.openxmlformats.org/package/2006/content-types}Types'' [] None
       [Element ''{http://schemas.openxmlformats.org/package/2006/content-types}Default''
          [(''Extension'', ''xml''), (''ContentType'', ''application/xml'')] None [] None,
        Element ''{http://schemas.openxmlformats.org/package/2006/content-types}Override''
          [(''PartName'', ''/word/document.xml''), (''ContentType'', ''application/xml'')] None [] None]
       None"

definition basic_docx :: archive where
  "basic_docx =
     [(''[Content_Types].xml'', XmlPart content_types_stripped),
      (''word/document.xml'', XmlPart document_xml),
      (''docProps/core.xml'', XmlPart core_xml_cleared)]"

definition deep_docx :: archive where
  "deep_docx =
     [(''[Content_Types].xml'', XmlPart content_types_stripped),
      (''word/document.xml'', XmlPart document_xml)]"

definition basic_tree :: exdir where
  "basic_tree =
     \<lparr>xfiles = [([''[Content_Types].xml''], XmlPart content_types_stripped),
                ([''word'', ''document.xml''], XmlPart document_xml),
                ([''docProps'', ''core.xml''], XmlPart core_xml_cleared)],
      xdirs = [[''word''], [''docProps'']]\<rparr>"

definition deep_tree :: exdir where
  "deep_tree =
     \<lparr>xfiles = [([''[Content_Types].xml''], XmlPart content_types_stripped),
                ([''word'', ''document.xml''], XmlPart document_xml)],
      xdirs = [[''word''], [''docProps'']]\<rparr>"

text \<open>
  \<open>MetadataCleaner(level, backup=False, verify=False)\<close> created in the example file
  system.
\<close>

definition fresh_cleaner :: "CleaningLevel \<Rightarrow> MetadataCleaner \<times> state" where
  "fresh_cleaner lvl =
     (case MetadataCleaner_init lvl False False None [] of
        (mc, h) \<Rightarrow> (mc, example_state\<lparr>heap := h\<rparr>))"

text \<open>
  A folder with five supported files and one of unsupported type, and an instance
  created over it, without backup and verification.
\<close>

definition example_folder :: state where
  "example_folder =
     \<lparr>files = [([''docs'', ''a.docx''], ZipFile example_docx),
               ([''docs'', ''c.pdf''], OtherFile ''%PDF-1.7''),
               ([''docs'', ''d.jpg''], OtherFile ''JFIF''),
               ([''docs'', ''e.txt''], OtherFile ''hello''),
               ([''docs'', ''f.mp3''], OtherFile ''ID3''),
               ([''docs'', ''notes.xyz''], OtherFile ''notes'')],
      dirs = [[''docs'']],
      heap = snd (MetadataCleaner_init DEEP False False None [])\<rparr>"

definition example_instance :: MetadataCleaner where
  "example_instance = fst (MetadataCleaner_init DEEP False False None [])"

definition example_batch_env :: batch_env where
  "example_batch_env = \<lparr>task_env = (\<lambda>i. example_env), batch_elapsed = 0\<rparr>"

section \<open>Properties of the result records\<close>

lemma add_results_Nil: "add_results b [] = b"
  by (simp add: add_results_def)

lemma add_results_snoc: "add_results b (rs @ [r]) = add_result (add_results b rs) r"
  by (simp add: add_results_def)

lemma total_files_add_results:
  "total_files (add_results b rs) = total_files b + int (length rs)"
  by (induction rs rule: rev_induct) (simp_all add: add_results_snoc add_results_Nil add_result_def Let_def)

lemma successful_add_results:
  "successful (add_results b rs) = successful b + int (length (filter success rs))"
  by (induction rs rule: rev_induct) (simp_all add: add_results_snoc add_results_Nil add_result_def Let_def)

lemma failed_add_results:
  "failed (add_results b rs) = failed b + int (length (filter (\<lambda>r. \<not> success r) rs))"
  by (induction rs rule: rev_induct) (simp_all add: add_results_snoc add_results_Nil add_result_def Let_def)

lemma skipped_add_results: "skipped (add_results b rs) = skipped b"
  by (induction rs rule: rev_induct) (simp_all add: add_results_snoc add_results_Nil add_result_def Let_def)

lemma results_add_results: "results (add_results b rs) = results b @ rs"
  by (induction rs rule: rev_induct) (simp_all add: add_results_snoc add_results_Nil add_result_def Let_def)

lemma total_size_reduction_add_results:
  "total_size_reduction (add_results b rs) =
     total_size_reduction b + sum_list (map size_reduction (filter success rs))"
  by (induction rs rule: rev_induct) (simp_all add: add_results_snoc add_results_Nil add_result_def Let_def)

lemma length_filter_mset: "length (filter P xs) = size (filter_mset P (mset xs))"
  by (metis mset_filter size_mset)

lemma sum_list_filter_mset:
  "sum_list (map f (filter P xs)) = sum_mset (image_mset f (filter_mset P (mset xs)))"
  by (metis mset_filter mset_map sum_mset_sum_list)


lemma size_reduction_percent_total: "\<exists>v. size_reduction_percent r = Inr v"
  by (simp add: size_reduction_percent_def truediv_def)

lemma success_rate_total: "\<exists>v. success_rate b = Inr v"
  by (simp add: success_rate_def truediv_def)

lemma to_dict_total: "\<exists>d. to_dict h r = Inr d"
proof -
  obtain v where "size_reduction_percent r = Inr v"
    using size_reduction_percent_total by blast
  then show ?thesis by (simp add: to_dict_def)
qed

lemma to_dict_all_total: "\<exists>ds. to_dict_all h rs = Inr ds"
proof (induction rs)
  case Nil
  show ?case by simp
next
  case (Cons r rs)
  obtain d where d: "to_dict h r = Inr d" using to_dict_total by blast
  from Cons obtain ds where "to_dict_all h rs = Inr ds" by blast
  with d show ?case by simp
qed

lemma batch_to_dict_total: "\<exists>d. batch_to_dict h b = Inr d"
proof -
  obtain v where v: "success_rate b = Inr v" using success_rate_total by blast
  obtain ds where "to_dict_all h (results b) = Inr ds" using to_dict_all_total by blast
  with v show ?thesis by (simp add: batch_to_dict_def)
qed

section \<open>Claims about the result records\<close>

text \<open>
  C6. The batch aggregate is a commutative fold: folding the same multiset of results
  with \<open>add_result\<close> in any two orders, from any starting aggregate, gives the same
  \<open>total_files\<close>, \<open>successful\<close>, \<open>failed\<close> and \<open>total_size_reduction\<close>; and from the
  initial aggregate \<open>total_size_reduction\<close> is the sum of \<open>size_reduction\<close> over the
  successful results, \<open>total_files\<close> the number of results and \<open>successful\<close> the number
  of successful ones (so five successful results give 5, 5 and the sum of the five
  reductions).
\<close>

theorem C6_commutative_fold:
  assumes "mset xs = mset ys"
  shows "total_files (add_results b xs) = total_files (add_results b ys)
       \<and> successful (add_results b xs) = successful (add_results b ys)
       \<and> failed (add_results b xs) = failed (add_results b ys)
       \<and> total_size_reduction (add_results b xs) = total_size_reduction (add_results b ys)
       \<and> total_size_reduction (add_results BatchCleaningResult_init xs)
            = sum_list (map size_reduction (filter success xs))
       \<and> total_files (add_results BatchCleaningResult_init xs) = int (length xs)
       \<and> successful (add_results BatchCleaningResult_init xs) = int (length (filter success xs))"
proof -
  have len: "length xs = length ys"
    using assms by (metis size_mset)
  have fl: "length (filter P xs) = length (filter P ys)" for P
    using assms by (simp add: length_filter_mset)
  have sm: "sum_list (map size_reduction (filter success xs))
          = sum_list (map size_reduction (filter success ys))"
    using assms by (simp add: sum_list_filter_mset)
  show ?thesis
    using len fl [of success] fl [of "\<lambda>r. \<not> success r"] sm
    by (simp add: total_files_add_results successful_add_results failed_add_results
        total_size_reduction_add_results BatchCleaningResult_init_def)
qed

theorem C6_commutative_fold_witness:
  "mset [example_result ''a.pdf'' True 900 700, example_result ''b.pdf'' False 50 0,
         example_result ''c.pdf'' True 400 300]
   = mset [example_result ''c.pdf'' True 400 300, example_result ''a.pdf'' True 900 700,
           example_result ''b.pdf'' False 50 0]
   \<and> total_size_reduction (add_results BatchCleaningResult_init
         [example_result ''c.pdf'' True 400 300, example_result ''a.pdf'' True 900 700,
          example_result ''b.pdf'' False 50 0]) = 300
   \<and> total_size_reduction (add_results BatchCleaningResult_init
         [example_result ''a.pdf'' True 900 700, example_result ''b.pdf'' False 50 0,
          example_result ''c.pdf'' True 400 300]) = 300"
proof -
  let ?a = "example_result ''a.pdf'' True 900 700"
  let ?b = "example_result ''b.pdf'' False 50 0"
  let ?c = "example_result ''c.pdf'' True 400 300"
  have m: "mset [?a, ?b, ?c] = mset [?c, ?a, ?b]"
    by (simp add: add.commute)
  have v: "total_size_reduction (add_results BatchCleaningResult_init [?a, ?b, ?c]) = 300"
    by (simp add: add_results_def add_result_def BatchCleaningResult_init_def Let_def
        example_result_def size_reduction_def)
  from C6_commutative_fold [OF m, of BatchCleaningResult_init] m v show ?thesis
    by simp
qed

text \<open>
  C9. After any sequence of \<open>add_result\<close> calls from the initial aggregate,
  \<open>total_files\<close> equals \<open>successful + failed\<close> and the length of \<open>results\<close>;
  \<open>add_result\<close> never changes \<open>skipped\<close>, which stays at its initial 0, so skipped
  files are not part of \<open>total_files\<close>.
\<close>

theorem C9_batch_invariant:
  "total_files (add_results BatchCleaningResult_init rs)
     = successful (add_results BatchCleaningResult_init rs)
       + failed (add_results BatchCleaningResult_init rs)
   \<and> total_files (add_results BatchCleaningResult_init rs)
     = int (length (results (add_results BatchCleaningResult_init rs)))
   \<and> skipped (add_results BatchCleaningResult_init rs) = 0
   \<and> skipped (add_result b r) = skipped b"
proof -
  have "length rs = length (filter success rs) + length (filter (\<lambda>r. \<not> success r) rs)"
    by (simp add: sum_length_filter_compl)
  then show ?thesis
    by (simp add: total_files_add_results successful_add_results failed_add_results
        skipped_add_results results_add_results BatchCleaningResult_init_def
        add_result_def Let_def)
qed

text \<open>
  C10. The derived metrics are total and their divisions guarded:
  \<open>size_reduction_percent\<close> is 0.0 when \<open>original_size\<close> is 0, \<open>success_rate\<close> is 0.0
  when \<open>total_files\<close> is 0, both always return a value, and \<open>to_dict\<close> of any result
  and of any batch returns a dictionary, never a \<open>ZeroDivisionError\<close>.
\<close>

theorem C10_guarded_division:
  "size_reduction_percent (r\<lparr>original_size := 0\<rparr>) = Inr 0
   \<and> success_rate (b\<lparr>total_files := 0\<rparr>) = Inr 0
   \<and> (\<exists>v. size_reduction_percent r = Inr v)
   \<and> (\<exists>v. success_rate b = Inr v)
   \<and> (\<exists>d. to_dict h r = Inr d)
   \<and> (\<exists>d. batch_to_dict h b = Inr d)"
  using size_reduction_percent_total [of r] success_rate_total [of b]
    to_dict_total [of h r] batch_to_dict_total [of h b]
  by (simp add: size_reduction_percent_def success_rate_def)

section \<open>Properties of the office cleaner\<close>

subsection \<open>The store and the files are handled separately\<close>

lemma length_clear: "length (clear h a) = length h"
  by (simp add: clear_def)

lemma length_append: "length (append h a m) = length h"
  by (simp add: append_def)

lemma length_reset: "length (reset c h) = length h"
  by (simp add: reset_def length_clear)

lemma is_dir_heap: "is_dir (st\<lparr>heap := h\<rparr>) p = is_dir st p"
  by (simp add: is_dir_def)

lemma create_office_file_heap:
  "create_office_file ev (st\<lparr>heap := h\<rparr>) d out =
     (fst (create_office_file ev st d out), (snd (create_office_file ev st d out))\<lparr>heap := h\<rparr>)"
  by (simp add: create_office_file_def is_dir_heap split: option.splits)

lemma office_body_heap:
  "office_body ev lvl (st\<lparr>heap := h\<rparr>) inp out =
     (fst (office_body ev lvl st inp out), (snd (office_body ev lvl st inp out))\<lparr>heap := h\<rparr>)"
  by (simp add: office_body_def create_office_file_heap
      split: option.splits file_data.splits sum.splits)

text \<open>\<open>OfficeCleaner.clean\<close> in terms of what its body does to the files.\<close>

lemma office_clean_eq:
  "office_clean ev c st inp out =
     (let h2 = reset c (heap st) @ [DictObj (extract_metadata st inp)];
          c1 = c\<lparr>c_metadata_removed := length (heap st)\<rparr>;
          st1 = snd (office_body ev (c_level c) st inp out)
      in case fst (office_body ev (c_level c) st inp out) of
           None \<Rightarrow> (True, c1, st1\<lparr>heap := h2\<rparr>)
         | Some e \<Rightarrow>
             (False, c1,
              st1\<lparr>heap := append h2 (c_errors c) (''Failed to clean Office document: '' @ error_str e)\<rparr>))"
proof -
  have em: "extract_metadata (st\<lparr>heap := h\<rparr>) inp = extract_metadata st inp" for h
    by (simp add: extract_metadata_def)
  show ?thesis
    by (simp add: office_clean_def alloc_def length_reset office_body_heap add_error_def Let_def
        split: option.splits)
qed

lemma office_body_no_fault:
  assumes "write_fault ev = None" and "fst (office_body ev lvl st inp out) \<noteq> None"
  shows "snd (office_body ev lvl st inp out) = st"
  using assms
  by (auto simp: office_body_def create_office_file_def
      split: option.splits file_data.splits sum.splits if_splits)


lemma office_body_zip:
  assumes "map_of (files st) inp = Some (ZipFile a)" and "extractall a = Inr d"
    and "rewrite_tree (rsid_sub ev) lvl (path_suffix inp) d = Inr d'"
    and "\<not> is_dir st out" and "is_dir st (path_parent out)"
  shows "office_body ev lvl st inp out =
     (case write_fault ev of
        None \<Rightarrow> (None, st\<lparr>files := AList.update out (ZipFile (packed d')) (files st)\<rparr>)
      | Some f \<Rightarrow> (Some (OSError ''No space left on device''),
                   st\<lparr>files := AList.update out f (files st)\<rparr>))"
  using assms by (simp add: office_body_def create_office_file_def split: option.splits)

lemma office_body_other:
  assumes "map_of (files st) inp = Some (OtherFile s)"
  shows "office_body ev lvl st inp out = (Some (BadZipFile ''File is not a zip file''), st)"
  using assms by (simp add: office_body_def)

text \<open>\<open>clean_file\<close> on an office document, without backup and verification.\<close>

lemma clean_file_office:
  assumes "exists st p" and "is_supported_file p" and "get_cleaner p = Some OfficeCleaner"
    and "\<not> verify mc" and "\<not> backup mc"
  shows "clean_file ev mc st p oo =
     (let out = (case oo of None \<Rightarrow> p | Some q \<Rightarrow> q);
          res = office_clean ev (cleaners mc OfficeCleaner) st p out;
          c = fst (snd res); st1 = snd (snd res)
      in (Inr \<lparr>file_path = p, success = fst res, original_size = get_file_size ev st p,
               cleaned_size = (if exists st1 out then get_file_size ev st1 out else 0),
               metadata_removed = c_metadata_removed c,
               errors = c_errors c, warnings = c_warnings c,
               processing_time = elapsed ev, backup_path = None,
               content_hash_before = None, content_hash_after = None,
               timestamp = created ev\<rparr>,
          mc\<lparr>cleaners := (cleaners mc)(OfficeCleaner := c)\<rparr>, st1))"
  using assms
  by (simp add: clean_file_def clean_with_def cleaner_clean_def Let_def split: prod.splits)

subsection \<open>The example document, step by step\<close>

lemmas tree_defs = extract_member_def arcname_def is_dir_member_def ancestors_def
  x_is_file_def x_is_dir_def x_exists_def makedirs_def

lemma extractall_example: "extractall example_docx = Inr example_tree"
  by (simp add: extractall_def example_docx_def example_tree_def tree_defs Let_def)

lemma clean_core: "et_write (clean_xml_tree core_xml) = core_xml_cleared"
  by (simp add: core_xml_def core_xml_cleared_def sensitive_tags_def local_name_def lower_def
      lower_char_def)

lemma remove_overrides_example: "remove_overrides content_types_xml = Inr content_types_stripped"
  by (simp add: content_types_xml_def content_types_stripped_def remove_overrides_def targeted_def
      is_override_def part_name_def metadata_parts_def)

lemma et_write_stripped: "et_write content_types_stripped = content_types_stripped"
  by (simp add: content_types_stripped_def)

lemma rewrite_basic: "rewrite_tree rs BASIC ext example_tree = Inr basic_tree"
  by (simp add: rewrite_tree_def example_tree_def basic_tree_def metadata_files_def
      clean_metadata_file_def clean_xml_metadata_def x_exists_def x_is_file_def x_is_dir_def
      clean_core update_content_types_def content_types_path_def remove_overrides_example
      et_write_stripped)

lemma rewrite_deep: "rewrite_tree (\<lambda>c. c) DEEP ''.docx'' example_tree = Inr deep_tree"
  by (simp add: rewrite_tree_def example_tree_def deep_tree_def metadata_files_def
      clean_metadata_file_def x_exists_def x_is_file_def x_is_dir_def clean_content_files_def
      content_files_def remove_rsid_attributes_def update_content_types_def
      content_types_path_def remove_overrides_example et_write_stripped)

lemma packed_basic: "packed basic_tree = basic_docx"
  by (simp add: packed_def basic_docx_def basic_tree_def)

lemma packed_deep: "packed deep_tree = deep_docx"
  by (simp add: packed_def deep_docx_def deep_tree_def)

lemma metadata_example:
  "extract_archive_metadata example_docx =
     [(''Core.creator'', ''Alice''), (''Core.title'', ''Report''), (''Core.revision'', ''3'')]"
  by (simp add: extract_archive_metadata_def namelist_def zf_read_def example_docx_def core_xml_def
      collect_def truthy_text_def is_space_def local_name_def)

lemma metadata_basic: "extract_archive_metadata basic_docx = [(''Core.title'', ''Report'')]"
  by (simp add: extract_archive_metadata_def namelist_def zf_read_def basic_docx_def
      core_xml_cleared_def collect_def truthy_text_def is_space_def local_name_def)

lemma a_docx:
  "path_suffix [''a.docx''] = ''.docx''" "is_supported_file [''a.docx'']"
  "get_cleaner [''a.docx''] = Some OfficeCleaner"
  by (simp_all add: path_suffix_def path_name_def rfind_dot_def is_supported_file_def
      from_extension_def FileType_values_def lower_def lower_char_def lstrip_dot_def
      get_cleaner_def)

lemma b_docx:
  "path_suffix [''b.docx''] = ''.docx''" "is_supported_file [''b.docx'']"
  "get_cleaner [''b.docx''] = Some OfficeCleaner"
  by (simp_all add: path_suffix_def path_name_def rfind_dot_def is_supported_file_def
      from_extension_def FileType_values_def lower_def lower_char_def lstrip_dot_def
      get_cleaner_def)

lemma fresh_cleaner_eval:
  "fresh_cleaner lvl =
    (\<lparr>level = lvl, backup = False, verify = False, backup_dir = None,
      cleaners = (\<lambda>k. case k of
          PdfCleaner \<Rightarrow> \<lparr>c_level = lvl, c_metadata_removed = 0, c_warnings = 1, c_errors = 2\<rparr>
        | OfficeCleaner \<Rightarrow> \<lparr>c_level = lvl, c_metadata_removed = 3, c_warnings = 4, c_errors = 5\<rparr>
        | ImageCleaner \<Rightarrow> \<lparr>c_level = lvl, c_metadata_removed = 6, c_warnings = 7, c_errors = 8\<rparr>
        | AudioCleaner \<Rightarrow> \<lparr>c_level = lvl, c_metadata_removed = 9, c_warnings = 10, c_errors = 11\<rparr>
        | VideoCleaner \<Rightarrow> \<lparr>c_level = lvl, c_metadata_removed = 12, c_warnings = 13, c_errors = 14\<rparr>
        | TextCleaner \<Rightarrow> \<lparr>c_level = lvl, c_metadata_removed = 15, c_warnings = 16, c_errors = 17\<rparr>)\<rparr>,
     example_state\<lparr>heap :=
       [DictObj [], ListObj [], ListObj [], DictObj [], ListObj [], ListObj [],
        DictObj [], ListObj [], ListObj [], DictObj [], ListObj [], ListObj [],
        DictObj [], ListObj [], ListObj [], DictObj [], ListObj [], ListObj []]\<rparr>)"
  by (auto simp: fresh_cleaner_def MetadataCleaner_init_def new_cleaner_def alloc_def fun_eq_iff
      split: cleaner_kind.splits)

lemmas state_defs = exists_def is_file_def is_dir_def example_state_def path_parent_def
  get_file_size_def extract_metadata_def

lemmas store_defs = the_dict_def the_list_def clear_def append_def reset_def error_str_def
  metadata_count_def


text \<open>Rewrite rules that run the example, one call at a time.\<close>

lemmas run_simps = fresh_cleaner_eval clean_file_office office_clean_eq a_docx b_docx
  office_body_zip [OF _ extractall_example, where d' = basic_tree]
  office_body_zip [OF _ extractall_example, where d' = deep_tree]
  office_body_other rewrite_basic rewrite_deep packed_basic packed_deep
  metadata_example state_defs example_env_def Let_def


section \<open>Claims about single files\<close>

text \<open>
  C1, as the code has it. When the storage takes every write, an office clean that
  fails has failed before the output file was opened (the input is missing or not a
  zip archive, extraction or an unlink raised, the output path is a directory or lies
  in no directory): then every file and directory is as before, so the original is
  byte-identical and nothing is written to the output path, also when it is the
  input path.
\<close>

theorem C1_failed_clean_leaves_files:
  assumes "write_fault ev = None"
    and "\<not> fst (office_clean ev c st inp out)"
  shows "files (snd (snd (office_clean ev c st inp out))) = files st
       \<and> dirs (snd (snd (office_clean ev c st inp out))) = dirs st"
proof -
  from assms(2) have "fst (office_body ev (c_level c) st inp out) \<noteq> None"
    by (auto simp: office_clean_eq Let_def split: option.splits)
  with assms(1) have "snd (office_body ev (c_level c) st inp out) = st"
    by (rule office_body_no_fault)
  then show ?thesis
    by (auto simp: office_clean_eq Let_def split: option.splits)
qed

theorem C1_failed_clean_leaves_files_witness:
  "write_fault example_env = None
   \<and> \<not> fst (office_clean example_env (cleaners (fst (fresh_cleaner DEEP)) OfficeCleaner)
              (snd (fresh_cleaner DEEP)) [''b.docx''] [''b.docx''])
   \<and> files (snd (snd (office_clean example_env (cleaners (fst (fresh_cleaner DEEP)) OfficeCleaner)
              (snd (fresh_cleaner DEEP)) [''b.docx''] [''b.docx''])))
     = [([''a.docx''], ZipFile example_docx), ([''b.docx''], OtherFile ''not a zip'')]"
proof -
  have w: "write_fault example_env = None"
    by (simp add: example_env_def)
  have f: "\<not> fst (office_clean example_env (cleaners (fst (fresh_cleaner DEEP)) OfficeCleaner)
              (snd (fresh_cleaner DEEP)) [''b.docx''] [''b.docx''])"
    by (simp add: run_simps)
  have s: "files (snd (fresh_cleaner DEEP))
         = [([''a.docx''], ZipFile example_docx), ([''b.docx''], OtherFile ''not a zip'')]"
    by (simp add: fresh_cleaner_eval example_state_def)
  from C1_failed_clean_leaves_files [OF w f] w f s show ?thesis
    by simp
qed

text \<open>
  C1, as stated, fails: the archive is written straight to the output path. When the
  device fails while the archive is being written over the input, the clean reports
  failure and the original is gone.
\<close>

theorem C1_counterexample:
  "(case fresh_cleaner DEEP of (mc, st) \<Rightarrow>
      case office_clean (example_env\<lparr>write_fault := Some (OtherFile ''PK'')\<rparr>)
             (cleaners mc OfficeCleaner) st [''a.docx''] [''a.docx''] of
        (ok, c, st1) \<Rightarrow> (ok, map_of (files st) [''a.docx''], map_of (files st1) [''a.docx'']))
   = (False, Some (ZipFile example_docx), Some (OtherFile ''PK''))"
  by (simp add: run_simps)

text \<open>
  C4 fails on the code: a result refers to the containers of the cleaner and holds no
  copy. After a successful \<open>clean_file\<close> of \<open>a.docx\<close> the result lists three removed
  fields and no error; after a second \<open>clean_file\<close>, of the corrupt \<open>b.docx\<close>, on the
  same instance, the first result lists no field and the error of the second call.
\<close>

theorem C4_first_result_changed_by_second_call:
  "(case fresh_cleaner DEEP of (mc, st) \<Rightarrow>
      case clean_file example_env mc st [''a.docx''] None of (res1, mc1, st1) \<Rightarrow>
      case clean_file example_env mc1 st1 [''b.docx''] None of (res2, mc2, st2) \<Rightarrow>
        (map_sum id (\<lambda>r. (success r, the_dict (heap st1) (metadata_removed r),
                            the_list (heap st1) (errors r))) res1,
         map_sum id (\<lambda>r. (the_dict (heap st2) (metadata_removed r),
                            the_list (heap st2) (errors r))) res1))
   = (Inr (True, [(''Core.creator'', ''Alice''), (''Core.title'', ''Report''),
                  (''Core.revision'', ''3'')], []),
      Inr ([], [''Failed to clean Office document: File is not a zip file'']))"
  apply (simp add: run_simps)
  apply (simp add: store_defs)
  done

text \<open>
  C7 fails on the code: \<open>_update_content_types\<close> drops the manifest entries of the
  metadata parts at every level. At \<open>BASIC\<close> the part \<open>docProps/core.xml\<close> is kept in
  the output archive, and its \<open>Override\<close> entry is removed from the manifest.
\<close>

theorem C7_basic_removes_manifest_entry_of_kept_part:
  "(case fresh_cleaner BASIC of (mc, st) \<Rightarrow>
      case office_clean example_env (cleaners mc OfficeCleaner) st [''a.docx''] [''a.docx''] of
        (ok, c, st1) \<Rightarrow> (ok, map_of (files st) [''a.docx''], map_of (files st1) [''a.docx'']))
   = (True, Some (ZipFile example_docx), Some (ZipFile basic_docx))
   \<and> ''docProps/core.xml'' \<in> set (namelist basic_docx)
   \<and> zf_read example_docx ''[Content_Types].xml'' = Some (XmlPart content_types_xml)
   \<and> map part_name (filter is_override (children content_types_xml))
       = [''/word/document.xml'', ''/docProps/core.xml'']
   \<and> zf_read basic_docx ''[Content_Types].xml'' = Some (XmlPart content_types_stripped)
   \<and> map part_name (filter is_override (children content_types_stripped))
       = [''/word/document.xml'']"
proof -
  have "(case fresh_cleaner BASIC of (mc, st) \<Rightarrow>
      case office_clean example_env (cleaners mc OfficeCleaner) st [''a.docx''] [''a.docx''] of
        (ok, c, st1) \<Rightarrow> (ok, map_of (files st) [''a.docx''], map_of (files st1) [''a.docx'']))
   = (True, Some (ZipFile example_docx), Some (ZipFile basic_docx))"
    by (simp add: run_simps)
  moreover have "''docProps/core.xml'' \<in> set (namelist basic_docx)"
    by (simp add: namelist_def basic_docx_def)
  moreover have "zf_read example_docx ''[Content_Types].xml'' = Some (XmlPart content_types_xml)"
    by (simp add: zf_read_def example_docx_def)
  moreover have "map part_name (filter is_override (children content_types_xml))
       = [''/word/document.xml'', ''/docProps/core.xml'']"
    by (simp add: content_types_xml_def is_override_def part_name_def)
  moreover have "zf_read basic_docx ''[Content_Types].xml'' = Some (XmlPart content_types_stripped)"
    by (simp add: zf_read_def basic_docx_def)
  moreover have "map part_name (filter is_override (children content_types_stripped))
       = [''/word/document.xml'']"
    by (simp add: content_types_stripped_def is_override_def part_name_def)
  ultimately show ?thesis by blast
qed

text \<open>
  C8 fails on the code: the backup name carries the time to the second. Two backups
  of \<open>report.docx\<close> at different times within one second get the same path, and the
  second, taken after the file was cleaned, overwrites the backup of the original.
\<close>

theorem C8_backups_within_a_second_collide:
  "epoch\<lparr>microsecond := 100000\<rparr> \<noteq> epoch\<lparr>microsecond := 900000\<rparr>
   \<and> create_backup (epoch\<lparr>microsecond := 100000\<rparr>)
        \<lparr>files = [([''report.docx''], OtherFile ''original'')], dirs = [], heap = []\<rparr>
        [''report.docx''] None
      = Inr ([''metadata_cleaner_backups'', ''report_20240101_120000.docx''],
             \<lparr>files = [([''report.docx''], OtherFile ''original''),
                       ([''metadata_cleaner_backups'', ''report_20240101_120000.docx''],
                        OtherFile ''original'')],
              dirs = [[''metadata_cleaner_backups'']], heap = []\<rparr>)
   \<and> create_backup (epoch\<lparr>microsecond := 900000\<rparr>)
        \<lparr>files = [([''report.docx''], OtherFile ''cleaned''),
                  ([''metadata_cleaner_backups'', ''report_20240101_120000.docx''],
                   OtherFile ''original'')],
         dirs = [[''metadata_cleaner_backups'']], heap = []\<rparr>
        [''report.docx''] None
      = Inr ([''metadata_cleaner_backups'', ''report_20240101_120000.docx''],
             \<lparr>files = [([''report.docx''], OtherFile ''cleaned''),
                       ([''metadata_cleaner_backups'', ''report_20240101_120000.docx''],
                        OtherFile ''cleaned'')],
              dirs = [[''metadata_cleaner_backups'']], heap = []\<rparr>)"
  by (simp add: create_backup_def mkdir_parents_def copy2_def backup_name_def strftime_def
      path_stem_def path_suffix_def path_name_def path_parent_def rfind_dot_def zfill_def
      dec.simps epoch_def is_file_def is_dir_def ancestors_def Let_def)


section \<open>Properties of batches\<close>

lemma collect_results_map_Inr: "collect_results b (map Inr rs) = Inr (add_results b rs)"
  by (induction rs arbitrary: b) (simp_all add: add_results_def)

lemma collect_results_Inr:
  "collect_results b rs = Inr b' \<Longrightarrow> \<exists>rs'. rs = map Inr rs' \<and> b' = add_results b rs'"
proof (induction b rs rule: collect_results.induct)
  case (1 b)
  then show ?case by (simp add: add_results_def)
next
  case (2 b e rs)
  then show ?case by simp
next
  case (3 b r rs)
  then obtain rs' where "rs = map Inr rs'" and "b' = add_results (add_result b r) rs'"
    by auto
  then have "Inr r # rs = map Inr (r # rs') \<and> b' = add_results b (r # rs')"
    by (simp add: add_results_def)
  then show ?case by (rule exI [where x = "r # rs'"])
qed

lemma length_run_tasks: "length (fst (run_tasks tev i mc st ps)) = length ps"
  by (induction ps arbitrary: i mc st) (simp_all add: Let_def case_prod_beta)

text \<open>A path of unsupported type gets a failed result, whatever the state.\<close>

lemma failure_result_fails: "\<not> success (fst (failure_result ev st p n msg))"
  by (simp add: failure_result_def alloc_def)

lemma clean_file_unsupported:
  assumes "\<not> is_supported_file p"
  shows "\<exists>r. fst (clean_file ev mc st p oo) = Inr r \<and> \<not> success r"
  using assms
  by (simp add: clean_file_def Let_def case_prod_beta failure_result_fails)

lemma run_tasks_unsupported:
  "j < length ps \<Longrightarrow> \<not> is_supported_file (ps ! j)
     \<Longrightarrow> \<exists>r. fst (run_tasks tev i mc st ps) ! j = Inr r \<and> \<not> success r"
proof (induction ps arbitrary: i mc st j)
  case Nil
  then show ?case by simp
next
  case (Cons p ps)
  show ?case
  proof (cases j)
    case 0
    with Cons.prems clean_file_unsupported [of p "tev i" mc st None] show ?thesis
      by (auto simp: Let_def case_prod_beta)
  next
    case (Suc k)
    with Cons.prems have "k < length ps" and "\<not> is_supported_file (ps ! k)"
      by simp_all
    from Cons.IH [OF this] Suc show ?thesis
      by (simp add: Let_def case_prod_beta)
  qed
qed

lemma run_pool_Inr:
  assumes "fst (run_pool bev mc st ps mw) = Inr b"
  shows "0 < mw \<and> (\<exists>rs. fst (run_tasks (task_env bev) 0 mc st ps) = map Inr rs
                        \<and> b = add_results BatchCleaningResult_init rs)"
proof -
  from assms have mw: "0 < mw"
    by (auto simp: run_pool_def split: if_splits)
  with assms have "collect_results BatchCleaningResult_init
                     (fst (run_tasks (task_env bev) 0 mc st ps)) = Inr b"
    by (simp add: run_pool_def Let_def case_prod_beta)
  from collect_results_Inr [OF this] mw show ?thesis by blast
qed

lemma run_pool_counts:
  assumes "fst (run_pool bev mc st ps mw) = Inr b"
  shows "total_files b = int (length ps) \<and> skipped b = 0
       \<and> successful b + failed b = int (length ps)
       \<and> int (length (filter (\<lambda>p. \<not> is_supported_file p) ps)) \<le> failed b"
proof -
  from run_pool_Inr [OF assms] obtain rs
    where rs: "fst (run_tasks (task_env bev) 0 mc st ps) = map Inr rs"
      and b: "b = add_results BatchCleaningResult_init rs"
    by blast
  from rs have len: "length rs = length ps"
    by (metis length_map length_run_tasks)
  have split: "length rs = length (filter success rs) + length (filter (\<lambda>r. \<not> success r) rs)"
    by (simp add: sum_length_filter_compl)
  have "length (filter (\<lambda>p. \<not> is_supported_file p) ps)
      \<le> length (filter (\<lambda>r. \<not> success r) rs)"
  proof -
    have "\<And>j. j < length ps \<Longrightarrow> \<not> is_supported_file (ps ! j) \<Longrightarrow> \<not> success (rs ! j)"
    proof -
      fix j assume j: "j < length ps" and u: "\<not> is_supported_file (ps ! j)"
      from run_tasks_unsupported [OF j u, of "task_env bev" 0 mc st] rs j len
      show "\<not> success (rs ! j)" by auto
    qed
    then have "{j. j < length ps \<and> \<not> is_supported_file (ps ! j)}
             \<subseteq> {j. j < length rs \<and> \<not> success (rs ! j)}"
      using len by auto
    then have "card {j. j < length ps \<and> \<not> is_supported_file (ps ! j)}
             \<le> card {j. j < length rs \<and> \<not> success (rs ! j)}"
      by (intro card_mono) auto
    then show ?thesis
      by (simp add: length_filter_conv_card)
  qed
  with b len split show ?thesis
    by (simp add: total_files_add_results successful_add_results failed_add_results
        skipped_add_results BatchCleaningResult_init_def)
qed

lemma clean_folder_Inr:
  assumes "is_dir st folder" and "fst (clean_folder bev mc st folder recursive mw) = Inr b"
  shows "\<exists>b0. fst (run_pool bev mc st
                   (filter is_supported_file (glob_files st folder recursive)) mw) = Inr b0
            \<and> b = b0\<lparr>total_time := batch_elapsed bev,
                      skipped := int (length (glob_files st folder recursive))
                        - int (length (filter is_supported_file (glob_files st folder recursive)))\<rparr>"
  using assms
  by (auto simp: clean_folder_def exists_def Let_def case_prod_beta split: sum.splits)

lemma clean_files_Inr:
  assumes "fst (clean_files bev mc st ps mw) = Inr b"
  shows "\<exists>b0. fst (run_pool bev mc st ps mw) = Inr b0 \<and> b = b0\<lparr>total_time := batch_elapsed bev\<rparr>"
  using assms
  by (auto simp: clean_files_def Let_def case_prod_beta split: sum.splits)

text \<open>Without verification no task raises, so a batch with workers returns its aggregate.\<close>

lemma clean_file_keeps_verify: "verify (fst (snd (clean_file ev mc st p oo))) = verify mc"
  by (simp add: clean_file_def clean_with_def Let_def case_prod_beta split: sum.splits option.splits)

lemma clean_file_no_verify:
  "\<not> verify mc \<Longrightarrow> \<exists>r. fst (clean_file ev mc st p oo) = Inr r"
  by (simp add: clean_file_def clean_with_def Let_def case_prod_beta split: sum.splits option.splits)

lemma run_tasks_no_verify:
  "\<not> verify mc \<Longrightarrow> \<exists>rs. fst (run_tasks tev i mc st ps) = map Inr rs"
proof (induction ps arbitrary: i mc st)
  case Nil
  then show ?case by simp
next
  case (Cons p ps)
  obtain r mc1 st1 where c: "clean_file (tev i) mc st p None = (r, mc1, st1)"
    by (cases "clean_file (tev i) mc st p None") auto
  with Cons.prems clean_file_no_verify [of mc "tev i" st p None] obtain r' where r': "r = Inr r'"
    by auto
  from c Cons.prems clean_file_keeps_verify [of "tev i" mc st p None] have "\<not> verify mc1"
    by simp
  from Cons.IH [OF this, of "Suc i" st1] obtain rs
    where "fst (run_tasks tev (Suc i) mc1 st1 ps) = map Inr rs" by blast
  with c r' have "fst (run_tasks tev i mc st (p # ps)) = map Inr (r' # rs)"
    by (simp add: Let_def case_prod_beta)
  then show ?case by blast
qed

lemma run_pool_no_verify:
  assumes "\<not> verify mc" and "0 < mw"
  shows "\<exists>b. fst (run_pool bev mc st ps mw) = Inr b"
proof -
  from run_tasks_no_verify [OF assms(1)] obtain rs
    where "fst (run_tasks (task_env bev) 0 mc st ps) = map Inr rs" by blast
  with assms(2) show ?thesis
    by (simp add: run_pool_def Let_def case_prod_beta collect_results_map_Inr)
qed


lemma example_folder_glob:
  "glob_files example_folder [''docs''] False =
     [[''docs'', ''a.docx''], [''docs'', ''c.pdf''], [''docs'', ''d.jpg''], [''docs'', ''e.txt''],
      [''docs'', ''f.mp3''], [''docs'', ''notes.xyz'']]"
  by (simp add: glob_files_def example_folder_def)

lemmas supported_defs = path_suffix_def path_name_def rfind_dot_def is_supported_file_def
  from_extension_def FileType_values_def lower_def lower_char_def lstrip_dot_def

lemma example_folder_supported:
  "is_supported_file [''docs'', ''a.docx'']" "is_supported_file [''docs'', ''c.pdf'']"
  "is_supported_file [''docs'', ''d.jpg'']" "is_supported_file [''docs'', ''e.txt'']"
  "is_supported_file [''docs'', ''f.mp3'']" "\<not> is_supported_file [''docs'', ''notes.xyz'']"
  by (simp_all add: supported_defs)

lemma example_instance_no_verify: "\<not> verify example_instance"
  by (simp add: example_instance_def MetadataCleaner_init_def new_cleaner_def alloc_def
      case_prod_beta Let_def)

section \<open>Claims about batches\<close>

text \<open>
  C3, as the code has it. A \<open>clean_folder\<close> batch that returns counts in \<open>total_files\<close>
  the supported files it found and in \<open>skipped\<close> the files of unsupported type;
  every counted file is successful or failed. With five supported files and one
  unsupported file in the folder: \<open>total_files = 5\<close>, \<open>skipped = 1\<close> and
  \<open>successful + failed = 5\<close>. Files of unsupported type in a folder are skipped,
  never failed, and are not part of \<open>total_files\<close>.
\<close>

theorem C3_clean_folder_counts:
  assumes "is_dir st folder_path"
    and "fst (clean_folder bev mc st folder_path recursive max_workers) = Inr b"
  shows "total_files b
           = int (length (filter is_supported_file (glob_files st folder_path recursive)))
       \<and> skipped b
           = int (length (filter (\<lambda>p. \<not> is_supported_file p)
                            (glob_files st folder_path recursive)))
       \<and> successful b + failed b = total_files b"
proof -
  let ?all = "glob_files st folder_path recursive"
  from clean_folder_Inr [OF assms] obtain b0
    where r: "fst (run_pool bev mc st (filter is_supported_file ?all) max_workers) = Inr b0"
      and b: "b = b0\<lparr>total_time := batch_elapsed bev,
                      skipped := int (length ?all) - int (length (filter is_supported_file ?all))\<rparr>"
    by blast
  have "length ?all = length (filter is_supported_file ?all)
                    + length (filter (\<lambda>p. \<not> is_supported_file p) ?all)"
    by (simp add: sum_length_filter_compl)
  with run_pool_counts [OF r] b show ?thesis
    by simp
qed

theorem C3_clean_folder_counts_witness:
  "is_dir example_folder [''docs'']
   \<and> length (filter is_supported_file (glob_files example_folder [''docs''] False)) = 5
   \<and> length (filter (\<lambda>p. \<not> is_supported_file p) (glob_files example_folder [''docs''] False)) = 1
   \<and> (\<exists>b. fst (clean_folder example_batch_env example_instance example_folder [''docs''] False 2)
              = Inr b
          \<and> total_files b = 5 \<and> skipped b = 1 \<and> successful b + failed b = 5)"
proof -
  have d: "is_dir example_folder [''docs'']"
    by (simp add: is_dir_def example_folder_def)
  have two: "(0::int) < 2" by simp
  obtain b0 where "fst (run_pool example_batch_env example_instance example_folder
      (filter is_supported_file (glob_files example_folder [''docs''] False)) 2) = Inr b0"
    using run_pool_no_verify [OF example_instance_no_verify two] by blast
  with d obtain b
    where b: "fst (clean_folder example_batch_env example_instance example_folder [''docs''] False 2)
                = Inr b"
    by (auto simp: clean_folder_def exists_def Let_def case_prod_beta split: sum.splits)
  from C3_clean_folder_counts [OF d b] d b show ?thesis
    by (simp add: example_folder_glob example_folder_supported)
qed

text \<open>
  C3, as stated, fails. \<open>clean_folder\<close> over five supported files and one unsupported
  file counts \<open>total_files = 5\<close>, not 6. \<open>clean_files\<close> over the same six paths counts
  6 files, skips none and counts the unsupported file as failed.
\<close>

theorem C3_counterexample:
  "map_sum id (\<lambda>b. (total_files b, skipped b, successful b + failed b))
     (fst (clean_folder example_batch_env example_instance example_folder [''docs''] False 2))
   = Inr (5, 1, 5)
   \<and> map_sum id (\<lambda>b. (total_files b, skipped b, 1 \<le> failed b))
     (fst (clean_files example_batch_env example_instance example_folder
        [[''docs'', ''a.docx''], [''docs'', ''c.pdf''], [''docs'', ''d.jpg''], [''docs'', ''e.txt''],
         [''docs'', ''f.mp3''], [''docs'', ''notes.xyz'']] 2))
   = Inr (6, 0, True)"
proof -
  let ?five = "[[''docs'', ''a.docx''], [''docs'', ''c.pdf''], [''docs'', ''d.jpg''],
                [''docs'', ''e.txt''], [''docs'', ''f.mp3'']]"
  let ?six = "[[''docs'', ''a.docx''], [''docs'', ''c.pdf''], [''docs'', ''d.jpg''],
               [''docs'', ''e.txt''], [''docs'', ''f.mp3''], [''docs'', ''notes.xyz'']]"
  have two: "(0::int) < 2" by simp
  obtain b5 where b5: "fst (run_pool example_batch_env example_instance example_folder ?five 2) = Inr b5"
    using run_pool_no_verify [OF example_instance_no_verify two] by blast
  obtain b6 where b6: "fst (run_pool example_batch_env example_instance example_folder ?six 2) = Inr b6"
    using run_pool_no_verify [OF example_instance_no_verify two] by blast
  have d: "is_dir example_folder [''docs'']"
    by (simp add: is_dir_def example_folder_def)
  have folder: "fst (clean_folder example_batch_env example_instance example_folder [''docs''] False 2)
      = Inr (b5\<lparr>total_time := batch_elapsed example_batch_env, skipped := 1\<rparr>)"
    using d b5
    by (simp add: clean_folder_def exists_def Let_def case_prod_beta example_folder_glob
        example_folder_supported)
  have files: "fst (clean_files example_batch_env example_instance example_folder ?six 2)
      = Inr (b6\<lparr>total_time := batch_elapsed example_batch_env\<rparr>)"
    using b6 by (simp add: clean_files_def Let_def case_prod_beta)
  from run_pool_counts [OF b5] run_pool_counts [OF b6] folder files show ?thesis
    by (simp add: example_folder_supported)
qed


section \<open>Properties of the cleaning at the basic level\<close>

lemma iter_clean:
  "iter (et_write (clean_xml_tree t)) = map (\<lambda>e. et_write (clean_xml_tree e)) (iter t)"
proof (induction t)
  case (Element t a x cs y)
  then have "concat (map (\<lambda>c. iter (et_write (clean_xml_tree c))) cs)
           = concat (map (\<lambda>c. map (\<lambda>e. et_write (clean_xml_tree e)) (iter c)) cs)"
    by (induction cs) simp_all
  then show ?case
    by (simp add: map_concat comp_def)
qed

lemma clean_element:
  "tag (et_write (clean_xml_tree e)) = tag e"
  "attrib (et_write (clean_xml_tree e)) = attrib e"
  "length (children (et_write (clean_xml_tree e))) = length (children e)"
  "lower (local_name (tag e)) \<in> set sensitive_tags
     \<Longrightarrow> elem_text (et_write (clean_xml_tree e)) = None"
  "lower (local_name (tag e)) \<notin> set sensitive_tags \<Longrightarrow> elem_text e \<noteq> Some []
     \<Longrightarrow> elem_text (et_write (clean_xml_tree e)) = elem_text e"
  by (cases e; simp)+

lemma lower_char_idem: "lower_char (lower_char c) = lower_char c"
  by (simp add: lower_char_def)

lemma lower_idem: "lower (lower s) = lower s"
  by (simp add: lower_def lower_char_idem)

lemma lower_not_sensitive:
  assumes "lower s \<notin> set (map lower sensitive_tags)"
  shows "lower s \<notin> set sensitive_tags"
proof
  assume "lower s \<in> set sensitive_tags"
  then have "lower (lower s) \<in> lower ` set sensitive_tags"
    by (rule imageI)
  with assms show False
    by (simp add: lower_idem)
qed

lemma effective_tags:
  "x \<in> set [''creator'', ''created'', ''modified'', ''company'', ''manager'', ''revision'']
     \<Longrightarrow> x \<in> set sensitive_tags"
  by (auto simp: sensitive_tags_def)

text \<open>The metadata files at \<open>BASIC\<close>: the parts that parse are rewritten, nothing else.\<close>

lemma clean_xml_metadata_keys: "map fst (xfiles (clean_xml_metadata d p)) = map fst (xfiles d)"
  by (auto simp: clean_xml_metadata_def update_keys dest: map_of_SomeD
      split: option.splits part.splits intro: rev_image_eqI)

lemma clean_xml_metadata_map_of:
  "map_of (xfiles (clean_xml_metadata d p)) q =
     (if q = p
      then (case map_of (xfiles d) p of
              Some (XmlPart t) \<Rightarrow> Some (XmlPart (et_write (clean_xml_tree t)))
            | other \<Rightarrow> other)
      else map_of (xfiles d) q)"
  by (simp add: clean_xml_metadata_def update_conv' split: option.splits part.splits)

lemma clean_xml_metadata_absent:
  "map_of (xfiles d) p = None \<Longrightarrow> clean_xml_metadata d p = d"
  by (simp add: clean_xml_metadata_def)

lemma clean_metadata_file_basic:
  "clean_metadata_file BASIC d p = Inr (clean_xml_metadata d p)"
proof (cases "x_exists d p")
  case True
  then show ?thesis by (simp add: clean_metadata_file_def)
next
  case False
  then have "map_of (xfiles d) p = None"
    by (auto simp: x_exists_def x_is_file_def map_of_eq_None_iff)
  with False show ?thesis
    by (simp add: clean_metadata_file_def clean_xml_metadata_absent)
qed

lemma clean_metadata_files_basic:
  "clean_metadata_files BASIC d ps = Inr (foldl clean_xml_metadata d ps)"
  by (induction ps arbitrary: d) (simp_all add: clean_metadata_file_basic)

lemma foldl_clean_keys: "map fst (xfiles (foldl clean_xml_metadata d ps)) = map fst (xfiles d)"
  by (induction ps arbitrary: d) (simp_all add: clean_xml_metadata_keys)

lemma foldl_clean_map_of:
  "distinct ps \<Longrightarrow>
   map_of (xfiles (foldl clean_xml_metadata d ps)) q =
     (if q \<in> set ps
      then (case map_of (xfiles d) q of
              Some (XmlPart t) \<Rightarrow> Some (XmlPart (et_write (clean_xml_tree t)))
            | other \<Rightarrow> other)
      else map_of (xfiles d) q)"
proof (induction ps arbitrary: d)
  case Nil
  then show ?case by simp
next
  case (Cons p ps)
  then have "distinct ps" and "p \<notin> set ps" by simp_all
  with Cons.IH [of "clean_xml_metadata d p"] show ?case
    by (auto simp: clean_xml_metadata_map_of)
qed

lemma update_content_types_keys: "map fst (xfiles (update_content_types d)) = map fst (xfiles d)"
  by (auto simp: update_content_types_def update_keys dest: map_of_SomeD
      split: option.splits part.splits sum.splits intro: rev_image_eqI)

lemma update_content_types_map_of:
  "q \<noteq> content_types_path \<Longrightarrow> map_of (xfiles (update_content_types d)) q = map_of (xfiles d) q"
  by (simp add: update_content_types_def update_conv' split: option.splits part.splits sum.splits)

lemma rewrite_tree_basic:
  "rewrite_tree rs BASIC ext d = Inr (update_content_types (foldl clean_xml_metadata d metadata_files))"
  by (simp add: rewrite_tree_def clean_metadata_files_basic)

lemma metadata_files_facts:
  "distinct metadata_files" "content_types_path \<notin> set metadata_files"
  by (simp_all add: metadata_files_def content_types_path_def)


section \<open>Claims about the cleaning levels\<close>

text \<open>
  C2, as the code has it, for the document archives. At the basic level no part is
  added or removed, and every part other than the three metadata parts and the
  manifest is unchanged. A metadata part that does not parse is unchanged. In a
  metadata part that parses, the elements, their tags, attributes and numbers of
  children are as before; the text of every element named \<open>creator\<close>, \<open>created\<close>,
  \<open>modified\<close>, \<open>company\<close>, \<open>manager\<close> or \<open>revision\<close> (in any letter case) is removed;
  the text of an element whose name is not in the list of sensitive tags, in any
  letter case, is as before.
\<close>

theorem C2_basic_level_fields:
  assumes "rewrite_tree rs BASIC ext d = Inr d'"
  shows "map fst (xfiles d') = map fst (xfiles d)
   \<and> (\<forall>q. q \<notin> set metadata_files \<and> q \<noteq> content_types_path
          \<longrightarrow> map_of (xfiles d') q = map_of (xfiles d) q)
   \<and> (\<forall>q s. q \<in> set metadata_files \<and> map_of (xfiles d) q = Some (RawPart s)
          \<longrightarrow> map_of (xfiles d') q = Some (RawPart s))
   \<and> (\<forall>q t. q \<in> set metadata_files \<and> map_of (xfiles d) q = Some (XmlPart t) \<longrightarrow>
        (\<exists>t'. map_of (xfiles d') q = Some (XmlPart t')
           \<and> length (iter t') = length (iter t)
           \<and> (\<forall>i<length (iter t).
                tag (iter t' ! i) = tag (iter t ! i)
              \<and> attrib (iter t' ! i) = attrib (iter t ! i)
              \<and> length (children (iter t' ! i)) = length (children (iter t ! i))
              \<and> (lower (local_name (tag (iter t ! i)))
                    \<in> set [''creator'', ''created'', ''modified'', ''company'', ''manager'',
                            ''revision'']
                  \<longrightarrow> elem_text (iter t' ! i) = None)
              \<and> (lower (local_name (tag (iter t ! i))) \<notin> set (map lower sensitive_tags)
                    \<and> elem_text (iter t ! i) \<noteq> Some []
                  \<longrightarrow> elem_text (iter t' ! i) = elem_text (iter t ! i)))))"
proof -
  let ?d1 = "foldl clean_xml_metadata d metadata_files"
  from assms have d': "d' = update_content_types ?d1"
    by (simp add: rewrite_tree_basic)
  have keys: "map fst (xfiles d') = map fst (xfiles d)"
    by (simp add: d' update_content_types_keys foldl_clean_keys)
  have other: "map_of (xfiles d') q = map_of (xfiles d) q"
    if "q \<notin> set metadata_files" and "q \<noteq> content_types_path" for q
    using that
    by (simp add: d' update_content_types_map_of foldl_clean_map_of metadata_files_facts)
  have meta: "map_of (xfiles d') q =
      (case map_of (xfiles d) q of
         Some (XmlPart t) \<Rightarrow> Some (XmlPart (et_write (clean_xml_tree t)))
       | other \<Rightarrow> other)"
    if "q \<in> set metadata_files" for q
  proof -
    from that metadata_files_facts(2) have "q \<noteq> content_types_path" by auto
    with that show ?thesis
      by (simp add: d' update_content_types_map_of foldl_clean_map_of metadata_files_facts)
  qed
  have raw: "map_of (xfiles d') q = Some (RawPart s)"
    if "q \<in> set metadata_files" and "map_of (xfiles d) q = Some (RawPart s)" for q s
    using that by (simp add: meta)
  have xml: "\<exists>t'. map_of (xfiles d') q = Some (XmlPart t')
           \<and> length (iter t') = length (iter t)
           \<and> (\<forall>i<length (iter t).
                tag (iter t' ! i) = tag (iter t ! i)
              \<and> attrib (iter t' ! i) = attrib (iter t ! i)
              \<and> length (children (iter t' ! i)) = length (children (iter t ! i))
              \<and> (lower (local_name (tag (iter t ! i)))
                    \<in> set [''creator'', ''created'', ''modified'', ''company'', ''manager'',
                            ''revision'']
                  \<longrightarrow> elem_text (iter t' ! i) = None)
              \<and> (lower (local_name (tag (iter t ! i))) \<notin> set (map lower sensitive_tags)
                    \<and> elem_text (iter t ! i) \<noteq> Some []
                  \<longrightarrow> elem_text (iter t' ! i) = elem_text (iter t ! i)))"
    if q: "q \<in> set metadata_files" and t: "map_of (xfiles d) q = Some (XmlPart t)" for q t
  proof (intro exI conjI allI impI)
    show "map_of (xfiles d') q = Some (XmlPart (et_write (clean_xml_tree t)))"
      using q t by (simp add: meta)
    show "length (iter (et_write (clean_xml_tree t))) = length (iter t)"
      by (simp add: iter_clean)
  next
    fix i assume i: "i < length (iter t)"
    then have nth: "iter (et_write (clean_xml_tree t)) ! i = et_write (clean_xml_tree (iter t ! i))"
      by (simp add: iter_clean)
    show "tag (iter (et_write (clean_xml_tree t)) ! i) = tag (iter t ! i)"
      by (simp add: nth clean_element)
    show "attrib (iter (et_write (clean_xml_tree t)) ! i) = attrib (iter t ! i)"
      by (simp add: nth clean_element)
    show "length (children (iter (et_write (clean_xml_tree t)) ! i))
        = length (children (iter t ! i))"
      by (simp add: nth clean_element)
    show "elem_text (iter (et_write (clean_xml_tree t)) ! i) = None"
      if "lower (local_name (tag (iter t ! i)))
            \<in> set [''creator'', ''created'', ''modified'', ''company'', ''manager'', ''revision'']"
      using effective_tags [OF that] by (simp add: nth clean_element)
    show "elem_text (iter (et_write (clean_xml_tree t)) ! i) = elem_text (iter t ! i)"
      if "lower (local_name (tag (iter t ! i))) \<notin> set (map lower sensitive_tags)
            \<and> elem_text (iter t ! i) \<noteq> Some []"
      using that lower_not_sensitive [of "local_name (tag (iter t ! i))"]
      by (simp add: nth clean_element)
  qed
  from keys other raw xml show ?thesis
    by blast
qed


theorem C2_basic_level_fields_witness:
  "rewrite_tree (\<lambda>c. c) BASIC ''.docx'' example_tree = Inr basic_tree
   \<and> map fst (xfiles basic_tree) = map fst (xfiles example_tree)
   \<and> [''word'', ''document.xml''] \<notin> set metadata_files
   \<and> [''word'', ''document.xml''] \<noteq> content_types_path
   \<and> map_of (xfiles basic_tree) [''word'', ''document.xml''] = Some (XmlPart document_xml)
   \<and> [''docProps'', ''core.xml''] \<in> set metadata_files
   \<and> map_of (xfiles example_tree) [''docProps'', ''core.xml''] = Some (XmlPart core_xml)
   \<and> map_of (xfiles basic_tree) [''docProps'', ''core.xml''] = Some (XmlPart core_xml_cleared)
   \<and> lower (local_name (tag (iter core_xml ! 1)))
        \<in> set [''creator'', ''created'', ''modified'', ''company'', ''manager'', ''revision'']
   \<and> elem_text (iter core_xml ! 1) = Some ''Alice''
   \<and> elem_text (iter core_xml_cleared ! 1) = None
   \<and> lower (local_name (tag (iter core_xml ! 2))) \<notin> set (map lower sensitive_tags)
   \<and> elem_text (iter core_xml ! 2) = Some ''Report''
   \<and> elem_text (iter core_xml_cleared ! 2) = Some ''Report''"
proof -
  have r: "rewrite_tree (\<lambda>c. c) BASIC ''.docx'' example_tree = Inr basic_tree"
    by (rule rewrite_basic)
  from C2_basic_level_fields [OF r]
  have k: "map fst (xfiles basic_tree) = map fst (xfiles example_tree)"
    and o: "\<forall>q. q \<notin> set metadata_files \<and> q \<noteq> content_types_path
          \<longrightarrow> map_of (xfiles basic_tree) q = map_of (xfiles example_tree) q"
    by blast+
  have p: "[''word'', ''document.xml''] \<notin> set metadata_files"
    "[''word'', ''document.xml''] \<noteq> content_types_path"
    "[''docProps'', ''core.xml''] \<in> set metadata_files"
    by (simp_all add: metadata_files_def content_types_path_def)
  from o p have doc: "map_of (xfiles basic_tree) [''word'', ''document.xml'']
                     = Some (XmlPart document_xml)"
    by (simp add: example_tree_def)
  have m: "map_of (xfiles example_tree) [''docProps'', ''core.xml''] = Some (XmlPart core_xml)"
    "map_of (xfiles basic_tree) [''docProps'', ''core.xml''] = Some (XmlPart core_xml_cleared)"
    by (simp_all add: example_tree_def basic_tree_def)
  have e: "lower (local_name (tag (iter core_xml ! 1)))
        \<in> set [''creator'', ''created'', ''modified'', ''company'', ''manager'', ''revision'']"
    "elem_text (iter core_xml ! 1) = Some ''Alice''"
    "elem_text (iter core_xml_cleared ! 1) = None"
    "lower (local_name (tag (iter core_xml ! 2))) \<notin> set (map lower sensitive_tags)"
    "elem_text (iter core_xml ! 2) = Some ''Report''"
    "elem_text (iter core_xml_cleared ! 2) = Some ''Report''"
    by (simp_all add: core_xml_def core_xml_cleared_def local_name_def lower_def lower_char_def
        sensitive_tags_def)
  from r k p doc m e show ?thesis
    by blast
qed

text \<open>
  C2, as stated, fails: at the basic level the office cleaner also removes the text of
  \<open>revision\<close>, a field of the revision history.
\<close>

theorem C2_counterexample:
  "(case fresh_cleaner BASIC of (mc, st) \<Rightarrow>
      case office_clean example_env (cleaners mc OfficeCleaner) st [''a.docx''] [''a.docx''] of
        (ok, c, st1) \<Rightarrow> (ok, map_of (files st) [''a.docx''], map_of (files st1) [''a.docx'']))
   = (True, Some (ZipFile example_docx), Some (ZipFile basic_docx))
   \<and> zf_read example_docx ''docProps/core.xml'' = Some (XmlPart core_xml)
   \<and> zf_read basic_docx ''docProps/core.xml'' = Some (XmlPart core_xml_cleared)
   \<and> map (\<lambda>e. (local_name (tag e), elem_text e)) (iter core_xml)
       = [(''coreProperties'', None), (''creator'', Some ''Alice''), (''title'', Some ''Report''),
          (''revision'', Some ''3'')]
   \<and> map (\<lambda>e. (local_name (tag e), elem_text e)) (iter core_xml_cleared)
       = [(''coreProperties'', None), (''creator'', None), (''title'', Some ''Report''),
          (''revision'', None)]"
proof -
  have "(case fresh_cleaner BASIC of (mc, st) \<Rightarrow>
      case office_clean example_env (cleaners mc OfficeCleaner) st [''a.docx''] [''a.docx''] of
        (ok, c, st1) \<Rightarrow> (ok, map_of (files st) [''a.docx''], map_of (files st1) [''a.docx'']))
   = (True, Some (ZipFile example_docx), Some (ZipFile basic_docx))"
    by (simp add: run_simps)
  moreover have "zf_read example_docx ''docProps/core.xml'' = Some (XmlPart core_xml)"
    by (simp add: zf_read_def example_docx_def)
  moreover have "zf_read basic_docx ''docProps/core.xml'' = Some (XmlPart core_xml_cleared)"
    by (simp add: zf_read_def basic_docx_def)
  moreover have "map (\<lambda>e. (local_name (tag e), elem_text e)) (iter core_xml)
       = [(''coreProperties'', None), (''creator'', Some ''Alice''), (''title'', Some ''Report''),
          (''revision'', Some ''3'')]"
    by (simp add: core_xml_def local_name_def)
  moreover have "map (\<lambda>e. (local_name (tag e), elem_text e)) (iter core_xml_cleared)
       = [(''coreProperties'', None), (''creator'', None), (''title'', Some ''Report''),
          (''revision'', None)]"
    by (simp add: core_xml_cleared_def local_name_def)
  ultimately show ?thesis by blast
qed


section \<open>Properties of the cleaning above the basic level\<close>

subsection \<open>Paths of the extracted tree\<close>

lemma split_on_not_Nil: "split_on c s \<noteq> []"
  by (induction s) (simp_all split: list.splits)

lemma split_on_no_sep: "x \<in> set (split_on c s) \<Longrightarrow> c \<notin> set x"
proof (induction s arbitrary: x)
  case Nil
  then show ?case by simp
next
  case (Cons a s)
  then show ?case
    by (cases "split_on c s") (auto simp: split_on_not_Nil split: if_splits)
qed

lemma split_on_plain: "c \<notin> set x \<Longrightarrow> split_on c x = [x]"
  by (induction x) auto

lemma split_on_append: "c \<notin> set x \<Longrightarrow> split_on c (x @ c # s) = x # split_on c s"
  by (induction x) auto

lemma split_on_join:
  "p \<noteq> [] \<Longrightarrow> \<forall>x\<in>set p. c \<notin> set x \<Longrightarrow> split_on c (join [c] p) = p"
proof (induction "[c]" p rule: join.induct)
  case 1
  then show ?case by simp
next
  case (2 x)
  then show ?case by (simp add: split_on_plain)
next
  case (3 x y ys)
  then show ?case by (simp add: split_on_append)
qed

lemma arcname_components: "x \<in> set (arcname n) \<Longrightarrow> CHR ''/'' \<notin> set x"
  by (auto simp: arcname_def dest: split_on_no_sep)

lemma extract_member_keys:
  assumes "extract_member d m = Inr d'"
    and "\<forall>p\<in>fst ` set (xfiles d). p \<noteq> [] \<and> (\<forall>x\<in>set p. CHR ''/'' \<notin> set x)"
  shows "\<forall>p\<in>fst ` set (xfiles d'). p \<noteq> [] \<and> (\<forall>x\<in>set p. CHR ''/'' \<notin> set x)"
proof -
  from assms(1) have "xfiles d' = xfiles d
      \<or> (arcname (fst m) \<noteq> [] \<and> xfiles d' = AList.update (arcname (fst m)) (snd m) (xfiles d))"
    by (auto simp: extract_member_def makedirs_def Let_def split: if_splits)
  then show ?thesis
  proof
    assume "xfiles d' = xfiles d"
    with assms(2) show ?thesis by simp
  next
    assume u: "arcname (fst m) \<noteq> []
             \<and> xfiles d' = AList.update (arcname (fst m)) (snd m) (xfiles d)"
    then have k: "fst ` set (xfiles d') = insert (arcname (fst m)) (fst ` set (xfiles d))"
      by (simp add: dom_update)
    show ?thesis
    proof
      fix p assume "p \<in> fst ` set (xfiles d')"
      with k have "p = arcname (fst m) \<or> p \<in> fst ` set (xfiles d)"
        by simp
      then show "p \<noteq> [] \<and> (\<forall>x\<in>set p. CHR ''/'' \<notin> set x)"
      proof
        assume "p = arcname (fst m)"
        with u show ?thesis by (auto dest: arcname_components)
      next
        assume "p \<in> fst ` set (xfiles d)"
        with assms(2) show ?thesis by (rule bspec)
      qed
    qed
  qed
qed

lemma extract_members_keys:
  "extract_members d ms = Inr d'
   \<Longrightarrow> \<forall>p\<in>fst ` set (xfiles d). p \<noteq> [] \<and> (\<forall>x\<in>set p. CHR ''/'' \<notin> set x)
   \<Longrightarrow> \<forall>p\<in>fst ` set (xfiles d'). p \<noteq> [] \<and> (\<forall>x\<in>set p. CHR ''/'' \<notin> set x)"
proof (induction ms arbitrary: d)
  case Nil
  then show ?case by simp
next
  case (Cons m ms)
  from Cons.prems(1) obtain d1 where m: "extract_member d m = Inr d1"
    and ms: "extract_members d1 ms = Inr d'"
    by (auto split: sum.splits)
  from extract_member_keys [OF m Cons.prems(2)] Cons.IH [OF ms] show ?case
    by blast
qed

lemma extractall_keys:
  "extractall a = Inr d \<Longrightarrow> \<forall>p\<in>fst ` set (xfiles d). p \<noteq> [] \<and> (\<forall>x\<in>set p. CHR ''/'' \<notin> set x)"
  using extract_members_keys [of "\<lparr>xfiles = [], xdirs = []\<rparr>" a d]
  by (simp add: extractall_def)

subsection \<open>The metadata parts are gone\<close>

lemma clean_metadata_file_keys:
  assumes "clean_metadata_file lvl d p = Inr d'" and "lvl \<noteq> BASIC"
  shows "fst ` set (xfiles d') = fst ` set (xfiles d) - {p}"
  using assms
  by (auto simp: clean_metadata_file_def x_exists_def x_is_file_def delete_keys
      simp flip: set_map split: if_splits)

lemma clean_metadata_files_keys:
  "clean_metadata_files lvl d ps = Inr d' \<Longrightarrow> lvl \<noteq> BASIC
   \<Longrightarrow> fst ` set (xfiles d') = fst ` set (xfiles d) - set ps"
proof (induction ps arbitrary: d)
  case Nil
  then show ?case by simp
next
  case (Cons p ps)
  from Cons.prems(1) obtain d1 where p: "clean_metadata_file lvl d p = Inr d1"
    and ps: "clean_metadata_files lvl d1 ps = Inr d'"
    by (auto split: sum.splits)
  from clean_metadata_file_keys [OF p Cons.prems(2)] Cons.IH [OF ps Cons.prems(2)] show ?case
    by auto
qed

lemma remove_rsid_attributes_keys:
  "fst ` set (xfiles (remove_rsid_attributes rs d p)) = fst ` set (xfiles d)"
  by (auto simp: remove_rsid_attributes_def dom_update dest: map_of_SomeD
      split: option.splits intro: rev_image_eqI)

lemma foldl_remove_rsid_keys:
  "fst ` set (xfiles (foldl (remove_rsid_attributes rs) d ps)) = fst ` set (xfiles d)"
  by (induction ps arbitrary: d) (simp_all add: remove_rsid_attributes_keys)

lemma rewrite_tree_keys:
  assumes "rewrite_tree rs lvl ext d = Inr d'" and "lvl \<noteq> BASIC"
  shows "fst ` set (xfiles d') = fst ` set (xfiles d) - set metadata_files"
proof -
  from assms(1) obtain d1 where d1: "clean_metadata_files lvl d metadata_files = Inr d1"
    and d': "d' = update_content_types
                    (if lvl \<in> set [DEEP, PARANOID] then clean_content_files rs d1 ext else d1)"
    by (auto simp: rewrite_tree_def split: sum.splits)
  have "fst ` set (xfiles d') = fst ` set (xfiles d1)"
    unfolding d' set_map [symmetric] update_content_types_keys
    by (simp add: clean_content_files_def foldl_remove_rsid_keys)
  with clean_metadata_files_keys [OF d1 assms(2)] show ?thesis
    by simp
qed

lemma packed_name:
  assumes "\<forall>p\<in>fst ` set (xfiles d). p \<noteq> [] \<and> (\<forall>x\<in>set p. CHR ''/'' \<notin> set x)"
    and "n \<in> set (namelist (packed d))"
  shows "split_on CHR ''/'' n \<in> fst ` set (xfiles d)"
proof -
  from assms(2) obtain p c where "(p, c) \<in> set (xfiles d)" and n: "n = join ''/'' p"
    by (auto simp: namelist_def packed_def)
  then have p: "p \<in> fst ` set (xfiles d)"
    by force
  from assms(1) p have "p \<noteq> []" and "\<forall>x\<in>set p. CHR ''/'' \<notin> set x"
    by auto
  then have "split_on CHR ''/'' (join [CHR ''/''] p) = p"
    by (rule split_on_join)
  with p n show ?thesis by simp
qed

lemma no_metadata_names:
  assumes "\<forall>p\<in>fst ` set (xfiles d). p \<noteq> [] \<and> (\<forall>x\<in>set p. CHR ''/'' \<notin> set x)"
    and "fst ` set (xfiles d) \<inter> set metadata_files = {}"
  shows "''docProps/core.xml'' \<notin> set (namelist (packed d))"
    and "''docProps/app.xml'' \<notin> set (namelist (packed d))"
    and "''docProps/custom.xml'' \<notin> set (namelist (packed d))"
proof -
  have "n \<notin> set (namelist (packed d))" if "split_on CHR ''/'' n \<in> set metadata_files" for n
    using packed_name [OF assms(1), of n] assms(2) that by auto
  then show "''docProps/core.xml'' \<notin> set (namelist (packed d))"
    and "''docProps/app.xml'' \<notin> set (namelist (packed d))"
    and "''docProps/custom.xml'' \<notin> set (namelist (packed d))"
    by (simp_all add: metadata_files_def)
qed

lemma rewritten_archive_has_no_metadata:
  assumes "extractall a = Inr d" and "rewrite_tree rs lvl ext d = Inr d'" and "lvl \<noteq> BASIC"
  shows "extract_archive_metadata (packed d') = []"
proof -
  from rewrite_tree_keys [OF assms(2,3)]
  have k: "fst ` set (xfiles d') = fst ` set (xfiles d) - set metadata_files" .
  with extractall_keys [OF assms(1)]
  have g: "\<forall>p\<in>fst ` set (xfiles d'). p \<noteq> [] \<and> (\<forall>x\<in>set p. CHR ''/'' \<notin> set x)"
    by auto
  from k have "fst ` set (xfiles d') \<inter> set metadata_files = {}"
    by auto
  from no_metadata_names [OF g this] show ?thesis
    by (simp add: extract_archive_metadata_def)
qed


end
